theory Spec2Isabelle
  imports Complex_Main "HOL-Library.Word"
begin

section \<open>Mesh assets: data model\<close>

text \<open>
  A shallow embedding of \<^verbatim>\<open>cocos/3d/assets/mesh.ts\<close>. Objects are modelled by value:
  a method takes the objects it writes and the GPU device and returns them updated.
  Byte offsets, byte lengths, counts and bundle indices are JavaScript numbers holding
  non-negative integers; they are \<open>nat\<close> here. Positions are finite JavaScript numbers,
  on which \<^verbatim>\<open>Math.max\<close> and \<^verbatim>\<open>Math.min\<close> are the maximum and minimum of the reals
  they denote. An optional field and a nullable value are an \<open>option\<close>.
\<close>

datatype error = RangeError | TypeError | DeviceError

datatype IndexUnit = UINT8 | UINT16 | UINT32

text \<open>
  \<^verbatim>\<open>getIndexUnitStride\<close> and \<^verbatim>\<open>getIndexUnitCtor\<close>. The statement after the
  \<^verbatim>\<open>switch\<close> is not reached by a value of the enumeration.
\<close>

fun getIndexUnitStride :: "IndexUnit \<Rightarrow> nat" where
  "getIndexUnitStride UINT8 = 1"
| "getIndexUnitStride UINT16 = 2"
| "getIndexUnitStride UINT32 = 4"

datatype ElementType = Uint8Array | Uint16Array | Uint32Array | Float32Array

fun getIndexUnitCtor :: "IndexUnit \<Rightarrow> ElementType" where
  "getIndexUnitCtor UINT8 = Uint8Array"
| "getIndexUnitCtor UINT16 = Uint16Array"
| "getIndexUnitCtor UINT32 = Uint32Array"

subsection \<open>Array buffers and typed-array views\<close>

type_synonym ArrayBuffer = "8 word list"

fun BYTES_PER_ELEMENT :: "ElementType \<Rightarrow> nat" where
  "BYTES_PER_ELEMENT Uint8Array = 1"
| "BYTES_PER_ELEMENT Uint16Array = 2"
| "BYTES_PER_ELEMENT Uint32Array = 4"
| "BYTES_PER_ELEMENT Float32Array = 4"

text \<open>A view: its element type, the buffer it is a window of, where it starts, and its
  number of elements.\<close>

record TypedArray =
  elementType :: ElementType
  buffer :: ArrayBuffer
  byteOffset :: nat
  elements :: nat

text \<open>
  The language's constructor \<^verbatim>\<open>new T(buffer, byteOffset, length)\<close>: a RangeError when
  the offset is not a multiple of the element size or when the window ends beyond the
  buffer. The callers pass a quotient as the length; the constructor truncates it to an
  integer, which the callers below write as \<open>div\<close>.
\<close>

definition newTypedArray :: "ElementType \<Rightarrow> ArrayBuffer \<Rightarrow> nat \<Rightarrow> nat \<Rightarrow> error + TypedArray" where
  "newTypedArray T buf off len =
     (if off mod BYTES_PER_ELEMENT T \<noteq> 0 then Inl RangeError
      else if off + len * BYTES_PER_ELEMENT T > length buf then Inl RangeError
      else Inr \<lparr>elementType = T, buffer = buf, byteOffset = off, elements = len\<rparr>)"

text \<open>The quotient of two numbers: division by zero is no error in JavaScript.\<close>

datatype jsnum = Finite rat | Infinity | NaN

definition jsdiv :: "nat \<Rightarrow> nat \<Rightarrow> jsnum" where
  "jsdiv a b = (if b = 0 then (if a = 0 then NaN else Infinity)
                else Finite (of_nat a / of_nat b))"

subsection \<open>The structural description\<close>

text \<open>
  Modelled from the spec: the enumerations \<^verbatim>\<open>GFXFormat\<close> and \<^verbatim>\<open>GFXPrimitiveMode\<close> of
  \<^verbatim>\<open>cocos/gfx/define\<close>, which this file only compares for equality; a value is the
  number of its member.
\<close>

type_synonym GFXFormat = nat
type_synonym GFXPrimitiveMode = nat

text \<open>
  Modelled from the spec: the attribute descriptor \<^verbatim>\<open>IGFXAttribute\<close> of
  \<^verbatim>\<open>cocos/gfx/input-assembler\<close>, of which this file reads the \<^verbatim>\<open>format\<close> only.
\<close>

record IGFXAttribute =
  name :: string
  format :: GFXFormat

text \<open>
  Modelled from the spec: \<^verbatim>\<open>IBufferRange\<close> of \<^verbatim>\<open>cocos/3d/assets/utils/buffer-range\<close>,
  an offset and a length in bytes into the mesh's buffer. The field \<^verbatim>\<open>length\<close> is
  \<open>length'\<close> here, and the field \<^verbatim>\<open>range\<close> of the records below is \<open>range'\<close> or
  \<open>geomRange\<close>.
\<close>

record IBufferRange =
  offset :: nat
  length' :: nat

record IVertexBundle =
  data :: IBufferRange
  verticesCount :: nat
  attributes :: "IGFXAttribute list"

text \<open>The \<^verbatim>\<open>indices\<close> field of a primitive.\<close>

record PrimitiveIndices =
  range' :: IBufferRange
  indexUnit :: IndexUnit

text \<open>
  The \<^verbatim>\<open>geometricInfo\<close> field of a primitive. Deferred initialization stores
  \<^verbatim>\<open>indices\<close> and \<^verbatim>\<open>positions\<close> into this object; before that they are absent
  (\<open>None\<close>, which also stands for a stored \<^verbatim>\<open>null\<close>).
\<close>

record GeometricInfo =
  doubleSided :: "bool option"
  geomRange :: IBufferRange
  geomIndices :: "TypedArray option"
  positions :: "TypedArray option"

record IPrimitive =
  vertexBundelIndices :: "nat list"
  primitiveMode :: GFXPrimitiveMode
  indices :: "PrimitiveIndices option"
  geometricInfo :: "GeometricInfo option"

text \<open>Modelled from the spec: \<^verbatim>\<open>Vec3\<close> of \<^verbatim>\<open>cocos/core/value-types\<close>, three
  numbers \<^verbatim>\<open>x\<close>, \<^verbatim>\<open>y\<close> and \<^verbatim>\<open>z\<close>.\<close>

record Vec3 =
  vec_x :: real
  vec_y :: real
  vec_z :: real

record IMeshStruct =
  vertexBundles :: "IVertexBundle list"
  primitives :: "IPrimitive list"
  minPosition :: "Vec3 option"
  maxPosition :: "Vec3 option"

subsection \<open>The GPU device\<close>

text \<open>
  Modelled from the spec: the flags \<^verbatim>\<open>GFXBufferUsageBit\<close> and \<^verbatim>\<open>GFXMemoryUsageBit\<close> of
  \<^verbatim>\<open>cocos/gfx/define\<close> that this file names. A word of flags joined by \<^verbatim>\<open>|\<close> is the
  set of its flags.
\<close>

datatype GFXBufferUsageBit = VERTEX | INDEX | TRANSFER_DST
datatype GFXMemoryUsageBit = HOST | DEVICE

text \<open>The argument of \<^verbatim>\<open>createBuffer\<close>, as the two calls in this file build it.\<close>

record IGFXBufferInfo =
  usage :: "GFXBufferUsageBit set"
  memUsage :: "GFXMemoryUsageBit set"
  size' :: nat
  stride :: jsnum

text \<open>
  Modelled from the spec: the GPU device and its buffers (\<^verbatim>\<open>cocos/gfx/device\<close> and
  \<^verbatim>\<open>cocos/gfx/buffer\<close>), with the contract \<^verbatim>\<open>createBuffer\<close> returns a buffer or fails
  with an allocation error, \<^verbatim>\<open>update\<close> replaces a buffer's contents, \<^verbatim>\<open>destroy\<close>
  releases it and raises nothing. A buffer is the position of its description in
  \<open>buffers\<close>; \<open>uploads\<close> and \<open>released\<close> log the calls of \<^verbatim>\<open>update\<close> and
  \<^verbatim>\<open>destroy\<close> in order. Whether an allocation fails is the device's business:
  \<open>refuses dev n\<close> says whether the call number \<open>n\<close> of \<^verbatim>\<open>createBuffer\<close> on this
  device raises, and \<open>attempts\<close> counts the calls made.
\<close>

type_synonym GFXBuffer = nat

record GFXDevice =
  buffers :: "IGFXBufferInfo list"
  uploads :: "(GFXBuffer \<times> TypedArray) list"
  released :: "GFXBuffer list"
  attempts :: nat
  refuses :: "nat \<Rightarrow> bool"

text \<open>Modelled from the spec: \<^verbatim>\<open>GFXDevice.createBuffer\<close>, which returns the
  new buffer or raises.\<close>

definition createBuffer :: "IGFXBufferInfo \<Rightarrow> GFXDevice \<Rightarrow> (error + GFXBuffer) \<times> GFXDevice" where
  "createBuffer info dev =
     (if refuses dev (attempts dev)
      then (Inl DeviceError, dev\<lparr>attempts := Suc (attempts dev)\<rparr>)
      else (Inr (length (buffers dev)),
            dev\<lparr>buffers := buffers dev @ [info], attempts := Suc (attempts dev)\<rparr>))"

text \<open>Modelled from the spec: \<^verbatim>\<open>GFXBuffer.update\<close>, which uploads a view.\<close>

definition GFXBuffer_update :: "GFXBuffer \<Rightarrow> TypedArray \<Rightarrow> GFXDevice \<Rightarrow> GFXDevice" where
  "GFXBuffer_update b view dev = dev\<lparr>uploads := uploads dev @ [(b, view)]\<rparr>"

text \<open>Modelled from the spec: \<^verbatim>\<open>GFXBuffer.destroy\<close>, which releases the buffer.\<close>

definition GFXBuffer_destroy :: "GFXBuffer \<Rightarrow> GFXDevice \<Rightarrow> GFXDevice" where
  "GFXBuffer_destroy b dev = dev\<lparr>released := released dev @ [b]\<rparr>"

text \<open>The buffers allocated and not released.\<close>

definition live :: "GFXDevice \<Rightarrow> GFXBuffer list" where
  "live dev = filter (\<lambda>b. b \<notin> set (released dev)) [0 ..< length (buffers dev)]"

text \<open>A device none of whose allocations fails.\<close>

definition reliable :: "GFXDevice \<Rightarrow> bool" where
  "reliable dev = (\<forall>n. \<not> refuses dev n)"

section \<open>The rendering mesh\<close>

text \<open>
  A submesh refers to vertex buffers by position in the list that
  \<^verbatim>\<open>_createVertexBuffers\<close> returned; a position outside that list reads
  \<^verbatim>\<open>undefined\<close>, here \<open>None\<close>. The object literal sets no \<^verbatim>\<open>indirectBuffer\<close>.
\<close>

record IRenderingSubmesh =
  sub_vertexBuffers :: "GFXBuffer option list"
  sub_indexBuffer :: "GFXBuffer option"
  sub_attributes :: "IGFXAttribute list"
  sub_primitiveMode :: GFXPrimitiveMode
  sub_geometricInfo :: "GeometricInfo option"

record RenderingMesh =
  subMeshes :: "IRenderingSubmesh list"
  vertexBuffers :: "GFXBuffer list"
  indexBuffers :: "GFXBuffer list"

definition subMeshCount :: "RenderingMesh \<Rightarrow> nat" where
  "subMeshCount rm = length (subMeshes rm)"

text \<open>\<^verbatim>\<open>RenderingMesh.destroy\<close>: every vertex buffer, then every index buffer, then the
  three lists are emptied.\<close>

definition RenderingMesh_destroy :: "RenderingMesh \<Rightarrow> GFXDevice \<Rightarrow> RenderingMesh \<times> GFXDevice" where
  "RenderingMesh_destroy rm dev =
     (let dev1 = fold GFXBuffer_destroy (vertexBuffers rm) dev;
          rm1 = rm\<lparr>vertexBuffers := []\<rparr>;
          dev2 = fold GFXBuffer_destroy (indexBuffers rm1) dev1;
          rm2 = rm1\<lparr>indexBuffers := []\<rparr>
      in (rm2\<lparr>subMeshes := []\<rparr>, dev2))"

section \<open>The mesh asset\<close>

record Mesh =
  struct :: IMeshStruct
  mesh_data :: "TypedArray option"
  initialized :: bool
  renderingMesh :: "RenderingMesh option"

text \<open>The field initializers of the class.\<close>

definition new_Mesh :: Mesh where
  "new_Mesh = \<lparr>struct = \<lparr>vertexBundles = [], primitives = [], minPosition = None, maxPosition = None\<rparr>,
               mesh_data = None, initialized = False, renderingMesh = None\<rparr>"

definition tryDestroyRenderingMesh :: "Mesh \<Rightarrow> GFXDevice \<Rightarrow> Mesh \<times> GFXDevice" where
  "tryDestroyRenderingMesh this dev =
     (case renderingMesh this of
        None \<Rightarrow> (this, dev)
      | Some rm \<Rightarrow>
          (let (rm', dev') = RenderingMesh_destroy rm dev
           in (this\<lparr>renderingMesh := None, initialized := False\<rparr>, dev')))"

definition assign :: "IMeshStruct \<Rightarrow> TypedArray \<Rightarrow> Mesh \<Rightarrow> GFXDevice \<Rightarrow> Mesh \<times> GFXDevice" where
  "assign s d this dev = tryDestroyRenderingMesh (this\<lparr>struct := s, mesh_data := Some d\<rparr>) dev"

subsection \<open>Deferred initialization\<close>

text \<open>\<^verbatim>\<open>_createVertexBuffers\<close>: the callback of \<^verbatim>\<open>map\<close> runs on the bundles in order;
  an exception ends the traversal with the device as it is then.\<close>

fun createVertexBuffers ::
  "IVertexBundle list \<Rightarrow> ArrayBuffer \<Rightarrow> GFXDevice \<Rightarrow> (error + GFXBuffer list) \<times> GFXDevice" where
  "createVertexBuffers [] buf dev = (Inr [], dev)"
| "createVertexBuffers (vertexBundle # rest) buf dev =
     (case createBuffer
             \<lparr>usage = {VERTEX, TRANSFER_DST}, memUsage = {HOST, DEVICE},
              size' = length' (data vertexBundle),
              stride = jsdiv (length' (data vertexBundle)) (verticesCount vertexBundle)\<rparr> dev of
        (Inl e, dev1) \<Rightarrow> (Inl e, dev1)
      | (Inr vertexBuffer, dev1) \<Rightarrow>
          (case newTypedArray Uint8Array buf (offset (data vertexBundle)) (length' (data vertexBundle)) of
             Inl e \<Rightarrow> (Inl e, dev1)
           | Inr view \<Rightarrow>
               (case createVertexBuffers rest buf (GFXBuffer_update vertexBuffer view dev1) of
                  (Inl e, dev2) \<Rightarrow> (Inl e, dev2)
                | (Inr vbs, dev2) \<Rightarrow> (Inr (vertexBuffer # vbs), dev2))))"

text \<open>The block \<^verbatim>\<open>if (prim.indices) { ... }\<close> of the loop body: the index buffer and
  the view \<^verbatim>\<open>ib\<close>, both \<^verbatim>\<open>null\<close> without indices.\<close>

definition createIndexBuffer ::
  "IPrimitive \<Rightarrow> ArrayBuffer \<Rightarrow> GFXDevice \<Rightarrow> (error + GFXBuffer option \<times> TypedArray option) \<times> GFXDevice" where
  "createIndexBuffer prim buf dev =
     (case indices prim of
        None \<Rightarrow> (Inr (None, None), dev)
      | Some ind \<Rightarrow>
          (case createBuffer
                  \<lparr>usage = {INDEX, TRANSFER_DST}, memUsage = {HOST, DEVICE},
                   size' = length' (range' ind),
                   stride = Finite (of_nat (getIndexUnitStride (indexUnit ind)))\<rparr> dev of
             (Inl e, dev1) \<Rightarrow> (Inl e, dev1)
           | (Inr indexBuffer, dev1) \<Rightarrow>
               (case newTypedArray (getIndexUnitCtor (indexUnit ind)) buf (offset (range' ind))
                       (length' (range' ind) div getIndexUnitStride (indexUnit ind)) of
                  Inl e \<Rightarrow> (Inl e, dev1)
                | Inr ib \<Rightarrow> (Inr (Some indexBuffer, Some ib), GFXBuffer_update indexBuffer ib dev1))))"

text \<open>\<^verbatim>\<open>vertexBuffers[i]\<close>.\<close>

definition vertexBufferAt :: "GFXBuffer list \<Rightarrow> nat \<Rightarrow> GFXBuffer option" where
  "vertexBufferAt vbs i = (if i < length vbs then Some (vbs ! i) else None)"

text \<open>The block that chooses \<^verbatim>\<open>gfxAttributes\<close>: those of the first bundle the
  primitive names; reading \<^verbatim>\<open>attributes\<close> of a bundle that is not there raises.\<close>

definition firstBundleAttributes :: "IVertexBundle list \<Rightarrow> nat list \<Rightarrow> error + IGFXAttribute list" where
  "firstBundleAttributes bundles vbi =
     (case vbi of
        [] \<Rightarrow> Inr []
      | idx # _ \<Rightarrow> if idx < length bundles then Inr (attributes (bundles ! idx)) else Inl TypeError)"

text \<open>
  One pass of the loop body for a primitive that is not skipped. The result is the
  exception or the pair of the index buffer and the submesh, then the primitive (its
  \<^verbatim>\<open>geometricInfo\<close> object is written to) and the device.
\<close>

definition initPrimitive ::
  "IVertexBundle list \<Rightarrow> GFXBuffer list \<Rightarrow> ArrayBuffer \<Rightarrow> IPrimitive \<Rightarrow> GFXDevice \<Rightarrow>
     (error + GFXBuffer option \<times> IRenderingSubmesh) \<times> IPrimitive \<times> GFXDevice" where
  "initPrimitive bundles vbs buf prim dev =
     (case createIndexBuffer prim buf dev of
        (Inl e, dev1) \<Rightarrow> (Inl e, prim, dev1)
      | (Inr (indexBuffer, ib), dev1) \<Rightarrow>
          (let vbReference = map (vertexBufferAt vbs) (vertexBundelIndices prim)
           in case firstBundleAttributes bundles (vertexBundelIndices prim) of
                Inl e \<Rightarrow> (Inl e, prim, dev1)
              | Inr gfxAttributes \<Rightarrow>
                  (case geometricInfo prim of
                     None \<Rightarrow>
                       (Inr (indexBuffer,
                             \<lparr>sub_vertexBuffers = vbReference, sub_indexBuffer = indexBuffer,
                              sub_attributes = gfxAttributes, sub_primitiveMode = primitiveMode prim,
                              sub_geometricInfo = None\<rparr>), prim, dev1)
                   | Some geomInfo \<Rightarrow>
                       (let geomInfo1 = geomInfo\<lparr>geomIndices := ib\<rparr>
                        in case newTypedArray Float32Array buf (offset (geomRange geomInfo1))
                                  (length' (geomRange geomInfo1) div 4) of
                             Inl e \<Rightarrow> (Inl e, prim\<lparr>geometricInfo := Some geomInfo1\<rparr>, dev1)
                           | Inr view \<Rightarrow>
                               (let geomInfo2 = geomInfo1\<lparr>positions := Some view\<rparr>
                                in (Inr (indexBuffer,
                                         \<lparr>sub_vertexBuffers = vbReference, sub_indexBuffer = indexBuffer,
                                          sub_attributes = gfxAttributes,
                                          sub_primitiveMode = primitiveMode prim,
                                          sub_geometricInfo = Some geomInfo2\<rparr>),
                                    prim\<lparr>geometricInfo := Some geomInfo2\<rparr>, dev1))))))"

text \<open>The loop over the primitives. The result is the exception or the lists
  \<^verbatim>\<open>indexBuffers\<close> and \<^verbatim>\<open>submeshes\<close>, then the primitives and the device.\<close>

fun initPrimitives ::
  "IVertexBundle list \<Rightarrow> GFXBuffer list \<Rightarrow> ArrayBuffer \<Rightarrow> IPrimitive list \<Rightarrow> GFXDevice \<Rightarrow>
     (error + GFXBuffer list \<times> IRenderingSubmesh list) \<times> IPrimitive list \<times> GFXDevice" where
  "initPrimitives bundles vbs buf [] dev = (Inr ([], []), [], dev)"
| "initPrimitives bundles vbs buf (prim # rest) dev =
     (if length (vertexBundelIndices prim) = 0
      then (case initPrimitives bundles vbs buf rest dev of
              (r, rest', dev') \<Rightarrow> (r, prim # rest', dev'))
      else (case initPrimitive bundles vbs buf prim dev of
              (Inl e, prim', dev1) \<Rightarrow> (Inl e, prim' # rest, dev1)
            | (Inr (indexBuffer, subMesh), prim', dev1) \<Rightarrow>
                (case initPrimitives bundles vbs buf rest dev1 of
                   (Inl e, rest', dev2) \<Rightarrow> (Inl e, prim' # rest', dev2)
                 | (Inr (ibs, sms), rest', dev2) \<Rightarrow>
                     (Inr ((case indexBuffer of None \<Rightarrow> ibs | Some b \<Rightarrow> b # ibs), subMesh # sms),
                      prim' # rest', dev2))))"

text \<open>\<^verbatim>\<open>_deferredInit\<close>, with the device that the source reads from a global. The first
  component is the exception that left the method, if any.\<close>

definition deferredInit :: "Mesh \<Rightarrow> GFXDevice \<Rightarrow> error option \<times> Mesh \<times> GFXDevice" where
  "deferredInit this dev =
     (if initialized this then (None, this, dev)
      else
        (let this1 = this\<lparr>initialized := True\<rparr>
         in case mesh_data this1 of
              None \<Rightarrow> (None, this1, dev)
            | Some d \<Rightarrow>
                (case createVertexBuffers (vertexBundles (struct this1)) (buffer d) dev of
                   (Inl e, dev1) \<Rightarrow> (Some e, this1, dev1)
                 | (Inr vbs, dev1) \<Rightarrow>
                     (case initPrimitives (vertexBundles (struct this1)) vbs (buffer d)
                             (primitives (struct this1)) dev1 of
                        (Inl e, prims', dev2) \<Rightarrow>
                          (Some e, this1\<lparr>struct := (struct this1)\<lparr>primitives := prims'\<rparr>\<rparr>, dev2)
                      | (Inr (ibs, sms), prims', dev2) \<Rightarrow>
                          (None,
                           this1\<lparr>struct := (struct this1)\<lparr>primitives := prims'\<rparr>,
                                 renderingMesh :=
                                   Some \<lparr>subMeshes = sms, vertexBuffers = vbs, indexBuffers = ibs\<rparr>\<rparr>,
                           dev2)))))"

text \<open>The accessor \<^verbatim>\<open>renderingMesh\<close>: what it returns (\<open>None\<close> for \<^verbatim>\<open>null\<close>) or the
  exception.\<close>

definition get_renderingMesh :: "Mesh \<Rightarrow> GFXDevice \<Rightarrow> (error + RenderingMesh option) \<times> Mesh \<times> GFXDevice" where
  "get_renderingMesh this dev =
     (case deferredInit this dev of
        (Some e, this', dev') \<Rightarrow> (Inl e, this', dev')
      | (None, this', dev') \<Rightarrow> (Inr (renderingMesh this'), this', dev'))"

subsection \<open>Validation and merge\<close>

text \<open>
  The loops of \<^verbatim>\<open>validateMergingMesh\<close> walk two arrays by one index. \<open>Inr False\<close> is
  the \<^verbatim>\<open>return false\<close> of the method, \<open>Inr True\<close> a loop that ran to its end; reading
  a field of an element beyond the second array raises a TypeError.
\<close>

fun validateAttributes :: "IGFXAttribute list \<Rightarrow> IGFXAttribute list \<Rightarrow> error + bool" where
  "validateAttributes [] dst = Inr True"
| "validateAttributes (a # as) [] = Inl TypeError"
| "validateAttributes (a # as) (d # ds) =
     (if format a \<noteq> format d then Inr False else validateAttributes as ds)"

fun validateVertexBundles :: "IVertexBundle list \<Rightarrow> IVertexBundle list \<Rightarrow> error + bool" where
  "validateVertexBundles [] dst = Inr True"
| "validateVertexBundles (bundle # rest) [] = Inl TypeError"
| "validateVertexBundles (bundle # rest) (dstBundle # dsts) =
     (if length (attributes bundle) \<noteq> length (attributes dstBundle) then Inr False
      else case validateAttributes (attributes bundle) (attributes dstBundle) of
             Inr True \<Rightarrow> validateVertexBundles rest dsts
           | r \<Rightarrow> r)"

fun validateIndices :: "nat list \<Rightarrow> nat list \<Rightarrow> error + bool" where
  "validateIndices [] dst = Inr True"
| "validateIndices (i # rest) [] = Inr False"
| "validateIndices (i # rest) (d # ds) = (if i \<noteq> d then Inr False else validateIndices rest ds)"

fun validatePrimitives :: "IPrimitive list \<Rightarrow> IPrimitive list \<Rightarrow> error + bool" where
  "validatePrimitives [] dst = Inr True"
| "validatePrimitives (prim # rest) [] = Inl TypeError"
| "validatePrimitives (prim # rest) (dstPrim # dsts) =
     (if length (vertexBundelIndices prim) \<noteq> length (vertexBundelIndices dstPrim) then Inr False
      else case validateIndices (vertexBundelIndices prim) (vertexBundelIndices dstPrim) of
             Inr True \<Rightarrow>
               (if primitiveMode prim \<noteq> primitiveMode dstPrim then Inr False
                else case (indices prim, indices dstPrim) of
                       (Some ind, Some dstInd) \<Rightarrow>
                         (if indexUnit ind \<noteq> indexUnit dstInd then Inr False
                          else validatePrimitives rest dsts)
                     | _ \<Rightarrow> validatePrimitives rest dsts)
           | r \<Rightarrow> r)"

definition validateMergingMesh :: "Mesh \<Rightarrow> Mesh \<Rightarrow> error + bool" where
  "validateMergingMesh this mesh =
     (if length (vertexBundles (struct this)) \<noteq> length (vertexBundles (struct mesh)) then Inr False
      else case validateVertexBundles (vertexBundles (struct this)) (vertexBundles (struct mesh)) of
             Inr True \<Rightarrow>
               (if length (primitives (struct this)) \<noteq> length (primitives (struct mesh)) then Inr False
                else validatePrimitives (primitives (struct this)) (primitives (struct mesh)))
           | r \<Rightarrow> r)"

text \<open>
  The loops of \<^verbatim>\<open>merge\<close> write into the elements of the first array as they go, so an
  exception leaves the elements before it merged: the result is the exception, if any,
  and the array as it is then.
\<close>

fun mergeVertexBundles :: "IVertexBundle list \<Rightarrow> IVertexBundle list \<Rightarrow> error option \<times> IVertexBundle list" where
  "mergeVertexBundles [] dst = (None, [])"
| "mergeVertexBundles (bundle # rest) [] = (Some TypeError, bundle # rest)"
| "mergeVertexBundles (bundle # rest) (dstBundle # dsts) =
     (let bundle1 = bundle\<lparr>data := (data bundle)\<lparr>length' := length' (data bundle) + length' (data dstBundle)\<rparr>\<rparr>;
          bundle2 = bundle1\<lparr>verticesCount := verticesCount bundle1 + verticesCount dstBundle\<rparr>
      in case mergeVertexBundles rest dsts of (e, rest') \<Rightarrow> (e, bundle2 # rest'))"

fun mergePrimitives :: "IPrimitive list \<Rightarrow> IPrimitive list \<Rightarrow> error option \<times> IPrimitive list" where
  "mergePrimitives [] dst = (None, [])"
| "mergePrimitives (prim # rest) [] =
     (case indices prim of
        None \<Rightarrow> (case mergePrimitives rest [] of (e, rest') \<Rightarrow> (e, prim # rest'))
      | Some ind \<Rightarrow> (Some TypeError, prim # rest))"
| "mergePrimitives (prim # rest) (dstPrim # dsts) =
     (let prim1 =
            (case (indices prim, indices dstPrim) of
               (Some ind, Some dstInd) \<Rightarrow>
                 prim\<lparr>indices := Some (ind\<lparr>range' := (range' ind)\<lparr>length' := length' (range' ind) + length' (range' dstInd)\<rparr>\<rparr>)\<rparr>
             | _ \<Rightarrow> prim)
      in case mergePrimitives rest dsts of (e, rest') \<Rightarrow> (e, prim1 # rest'))"

definition mergeMax :: "Vec3 \<Rightarrow> Vec3 \<Rightarrow> Vec3" where
  "mergeMax p q = \<lparr>vec_x = max (vec_x p) (vec_x q), vec_y = max (vec_y p) (vec_y q),
                   vec_z = max (vec_z p) (vec_z q)\<rparr>"

definition mergeMin :: "Vec3 \<Rightarrow> Vec3 \<Rightarrow> Vec3" where
  "mergeMin p q = \<lparr>vec_x = min (vec_x p) (vec_x q), vec_y = min (vec_y p) (vec_y q),
                   vec_z = min (vec_z p) (vec_z q)\<rparr>"

definition mergeBoundingBox :: "IMeshStruct \<Rightarrow> IMeshStruct \<Rightarrow> IMeshStruct" where
  "mergeBoundingBox s t =
     (let s1 = (case (maxPosition s, maxPosition t) of
                  (Some p, Some q) \<Rightarrow> s\<lparr>maxPosition := Some (mergeMax p q)\<rparr>
                | _ \<Rightarrow> s)
      in case (minPosition s1, minPosition t) of
           (Some p, Some q) \<Rightarrow> s1\<lparr>minPosition := Some (mergeMin p q)\<rparr>
         | _ \<Rightarrow> s1)"

text \<open>
  \<^verbatim>\<open>merge\<close>: the value returned or the exception, then the receiver and the argument
  \<^verbatim>\<open>mesh\<close> after the call. The method has no assignment to a field of \<^verbatim>\<open>mesh\<close>.
  The two meshes are distinct objects and a struct shares no object with another or
  with itself.
\<close>

definition merge :: "Mesh \<Rightarrow> Mesh \<Rightarrow> bool option \<Rightarrow> (error + bool) \<times> Mesh \<times> Mesh" where
  "merge this mesh validate =
     (case (if validate = Some True then validateMergingMesh this mesh else Inr True) of
        Inl e \<Rightarrow> (Inl e, this, mesh)
      | Inr False \<Rightarrow> (Inr False, this, mesh)
      | Inr True \<Rightarrow>
          (case mergeVertexBundles (vertexBundles (struct this)) (vertexBundles (struct mesh)) of
             (Some e, bundles') \<Rightarrow>
               (Inl e, this\<lparr>struct := (struct this)\<lparr>vertexBundles := bundles'\<rparr>\<rparr>, mesh)
           | (None, bundles') \<Rightarrow>
               (let this1 = this\<lparr>struct := (struct this)\<lparr>vertexBundles := bundles'\<rparr>\<rparr>
                in case mergePrimitives (primitives (struct this1)) (primitives (struct mesh)) of
                     (Some e, prims') \<Rightarrow>
                       (Inl e, this1\<lparr>struct := (struct this1)\<lparr>primitives := prims'\<rparr>\<rparr>, mesh)
                   | (None, prims') \<Rightarrow>
                       (let this2 = this1\<lparr>struct := (struct this1)\<lparr>primitives := prims'\<rparr>\<rparr>
                        in (Inr True,
                            this2\<lparr>struct := mergeBoundingBox (struct this2) (struct mesh)\<rparr>,
                            mesh)))))"

section \<open>Valid pairs of a struct and a buffer\<close>

text \<open>
  A valid pair: every range lies inside the buffer, and a primitive names bundles of
  the struct. Ranges are byte-granular: a valid pair says nothing of where a range
  starts.
\<close>

definition inBounds :: "ArrayBuffer \<Rightarrow> IBufferRange \<Rightarrow> bool" where
  "inBounds buf r = (offset r + length' r \<le> length buf)"

definition validPrimitive :: "ArrayBuffer \<Rightarrow> nat \<Rightarrow> IPrimitive \<Rightarrow> bool" where
  "validPrimitive buf n prim =
     (list_all (\<lambda>i. i < n) (vertexBundelIndices prim) \<and>
      (case indices prim of
         None \<Rightarrow> True
       | Some ind \<Rightarrow> inBounds buf (range' ind)) \<and>
      (case geometricInfo prim of
         None \<Rightarrow> True
       | Some g \<Rightarrow> inBounds buf (geomRange g)))"

definition validStruct :: "ArrayBuffer \<Rightarrow> IMeshStruct \<Rightarrow> bool" where
  "validStruct buf s =
     (list_all (\<lambda>vb. inBounds buf (data vb)) (vertexBundles s) \<and>
      list_all (validPrimitive buf (length (vertexBundles s))) (primitives s))"

text \<open>
  What the views of deferred initialization need beyond a valid pair: the index data of
  a primitive start at a multiple of the index stride, and its raycast data at a
  multiple of 4.
\<close>

definition alignedPrimitive :: "IPrimitive \<Rightarrow> bool" where
  "alignedPrimitive prim =
     ((case indices prim of
         None \<Rightarrow> True
       | Some ind \<Rightarrow> offset (range' ind) mod getIndexUnitStride (indexUnit ind) = 0) \<and>
      (case geometricInfo prim of
         None \<Rightarrow> True
       | Some g \<Rightarrow> offset (geomRange g) mod 4 = 0))"

definition alignedStruct :: "IMeshStruct \<Rightarrow> bool" where
  "alignedStruct s = list_all alignedPrimitive (primitives s)"

text \<open>The spec's invariant of a vertex bundle: its length is a multiple of its number
  of vertices.\<close>

definition wholeStride :: "IVertexBundle \<Rightarrow> bool" where
  "wholeStride vb = (length' (data vb) mod verticesCount vb = 0)"

text \<open>A primitive that deferred initialization does not skip, and one that also has
  indices.\<close>

definition renderable :: "IPrimitive \<Rightarrow> bool" where
  "renderable prim = (vertexBundelIndices prim \<noteq> [])"

definition indexed :: "IPrimitive \<Rightarrow> bool" where
  "indexed prim = (indices prim \<noteq> None)"

text \<open>Some call of \<^verbatim>\<open>createBuffer\<close> made between two states of the device raised.\<close>

definition allocationFailed :: "GFXDevice \<Rightarrow> GFXDevice \<Rightarrow> bool" where
  "allocationFailed dev dev' = (\<exists>n \<in> set [attempts dev ..< attempts dev']. refuses dev n)"

section \<open>Example inputs\<close>

text \<open>A fresh device on which every allocation succeeds, and one whose call number
  \<open>k\<close> of \<^verbatim>\<open>createBuffer\<close> raises.\<close>

definition dev0 :: GFXDevice where
  "dev0 = \<lparr>buffers = [], uploads = [], released = [], attempts = 0, refuses = (\<lambda>n. False)\<rparr>"

definition devRefusing :: "nat \<Rightarrow> GFXDevice" where
  "devRefusing k = \<lparr>buffers = [], uploads = [], released = [], attempts = 0, refuses = (\<lambda>n. n = k)\<rparr>"

text \<open>A \<^verbatim>\<open>Uint8Array\<close> over a whole buffer of \<open>n\<close> zero bytes.\<close>

definition zeroBytes :: "nat \<Rightarrow> TypedArray" where
  "zeroBytes n = \<lparr>elementType = Uint8Array, buffer = replicate n 0, byteOffset = 0, elements = n\<rparr>"

definition bundleAt :: "nat \<Rightarrow> nat \<Rightarrow> nat \<Rightarrow> IVertexBundle" where
  "bundleAt off len count =
     \<lparr>data = \<lparr>offset = off, length' = len\<rparr>, verticesCount = count,
      attributes = [\<lparr>name = ''a_position'', format = 32\<rparr>]\<rparr>"

definition indicesAt :: "nat \<Rightarrow> nat \<Rightarrow> PrimitiveIndices option" where
  "indicesAt off len = Some \<lparr>range' = \<lparr>offset = off, length' = len\<rparr>, indexUnit = UINT16\<rparr>"

definition meshOf :: "IVertexBundle list \<Rightarrow> IPrimitive list \<Rightarrow> nat \<Rightarrow> Mesh" where
  "meshOf bundles prims n =
     \<lparr>struct = \<lparr>vertexBundles = bundles, primitives = prims, minPosition = None, maxPosition = None\<rparr>,
      mesh_data = Some (zeroBytes n), initialized = False, renderingMesh = None\<rparr>"

text \<open>One bundle; a primitive with indices that names no bundle, a primitive without
  indices, and a primitive with indices and raycast data.\<close>

definition exampleMesh :: Mesh where
  "exampleMesh =
     meshOf [bundleAt 0 8 2]
       [\<lparr>vertexBundelIndices = [], primitiveMode = 1, indices = indicesAt 8 6, geometricInfo = None\<rparr>,
        \<lparr>vertexBundelIndices = [0], primitiveMode = 4, indices = None, geometricInfo = None\<rparr>,
        \<lparr>vertexBundelIndices = [0], primitiveMode = 7, indices = indicesAt 8 6,
         geometricInfo = Some \<lparr>doubleSided = None, geomRange = \<lparr>offset = 0, length' = 8\<rparr>,
                               geomIndices = None, positions = None\<rparr>\<rparr>]
       16"

text \<open>One bundle and one primitive that has indices and names no bundle.\<close>

definition skippedIndexedMesh :: Mesh where
  "skippedIndexedMesh =
     meshOf [bundleAt 0 8 2]
       [\<lparr>vertexBundelIndices = [], primitiveMode = 7, indices = indicesAt 8 6, geometricInfo = None\<rparr>]
       16"

text \<open>A bundle of 8 bytes over a buffer of 4 bytes, and a bundle of 4 bytes with no
  vertex.\<close>

definition overrunMesh :: Mesh where
  "overrunMesh = meshOf [bundleAt 0 8 2] [] 4"

definition zeroVerticesMesh :: Mesh where
  "zeroVerticesMesh = meshOf [bundleAt 0 4 0] [] 4"

text \<open>Two bundles that fit their buffer.\<close>

definition twoBundleMesh :: Mesh where
  "twoBundleMesh = meshOf [bundleAt 0 8 2, bundleAt 8 8 2] [] 16"

text \<open>One bundle and one primitive whose six bytes of 16-bit indices start at byte 9 of
  a buffer of 16 bytes.\<close>

definition misalignedMesh :: Mesh where
  "misalignedMesh =
     meshOf [bundleAt 0 8 2]
       [\<lparr>vertexBundelIndices = [0], primitiveMode = 7, indices = indicesAt 9 6, geometricInfo = None\<rparr>]
       16"

text \<open>Two bundles of which the second ends beyond the buffer.\<close>

definition secondOverrunMesh :: Mesh where
  "secondOverrunMesh = meshOf [bundleAt 0 8 2, bundleAt 8 16 2] [] 16"

text \<open>A mesh made by \<^verbatim>\<open>new Mesh()\<close> whose \<^verbatim>\<open>renderingMesh\<close> was read, and the same
  mesh after \<^verbatim>\<open>assign\<close> gave it two bundles and their 16 bytes.\<close>

definition accessedEmptyMesh :: Mesh where
  "accessedEmptyMesh = fst (snd (get_renderingMesh new_Mesh dev0))"

definition reassignedMesh :: Mesh where
  "reassignedMesh = fst (assign (struct twoBundleMesh) (zeroBytes 16) accessedEmptyMesh dev0)"

text \<open>The meshes of the spec's merge examples.\<close>

definition mergeLeft :: Mesh where
  "mergeLeft =
     \<lparr>struct = \<lparr>vertexBundles = [bundleAt 0 100 10],
                primitives = [\<lparr>vertexBundelIndices = [0], primitiveMode = 7,
                               indices = indicesAt 100 12, geometricInfo = None\<rparr>],
                minPosition = Some \<lparr>vec_x = 0, vec_y = 0, vec_z = 0\<rparr>,
                maxPosition = Some \<lparr>vec_x = 1, vec_y = 2, vec_z = 3\<rparr>\<rparr>,
      mesh_data = None, initialized = False, renderingMesh = None\<rparr>"

definition mergeRight :: Mesh where
  "mergeRight =
     \<lparr>struct = \<lparr>vertexBundles = [bundleAt 0 50 5],
                primitives = [\<lparr>vertexBundelIndices = [0], primitiveMode = 7,
                               indices = indicesAt 50 6, geometricInfo = None\<rparr>],
                minPosition = Some \<lparr>vec_x = -1, vec_y = 1, vec_z = -2\<rparr>,
                maxPosition = Some \<lparr>vec_x = 4, vec_y = 0, vec_z = 5\<rparr>\<rparr>,
      mesh_data = None, initialized = False, renderingMesh = None\<rparr>"

text \<open>The definitions of the example inputs, for evaluating them.\<close>

lemmas example_defs = dev0_def devRefusing_def zeroBytes_def bundleAt_def indicesAt_def meshOf_def
  exampleMesh_def skippedIndexedMesh_def overrunMesh_def zeroVerticesMesh_def twoBundleMesh_def
  mergeLeft_def mergeRight_def secondOverrunMesh_def accessedEmptyMesh_def reassignedMesh_def
  misalignedMesh_def

section \<open>The device during deferred initialization\<close>

text \<open>Deferred initialization only allocates and uploads: it releases nothing, and the
  buffers it leaves are those it found followed by the new ones.\<close>

lemma createBuffer_result:
  "createBuffer info dev = (r, dev') \<Longrightarrow>
     released dev' = released dev \<and> refuses dev' = refuses dev \<and>
     (case r of Inl e \<Rightarrow> e = DeviceError \<and> refuses dev (attempts dev) \<and> buffers dev' = buffers dev
              | Inr b \<Rightarrow> b = length (buffers dev) \<and> \<not> refuses dev (attempts dev) \<and> buffers dev' = buffers dev @ [info])"
  by (auto simp: createBuffer_def split: if_splits)

lemma GFXBuffer_update_frame [simp]:
  "released (GFXBuffer_update b v dev) = released dev"
  "refuses (GFXBuffer_update b v dev) = refuses dev"
  "buffers (GFXBuffer_update b v dev) = buffers dev"
  "attempts (GFXBuffer_update b v dev) = attempts dev"
  by (simp_all add: GFXBuffer_update_def)

lemma createVertexBuffers_frame:
  "createVertexBuffers bs buf dev = (r, dev') \<Longrightarrow>
     released dev' = released dev \<and> refuses dev' = refuses dev \<and>
     (\<exists>extra. buffers dev' = buffers dev @ extra)"
proof (induction bs arbitrary: dev r dev')
  case Nil
  then show ?case by simp
next
  case (Cons vb bs)
  then show ?case
    by (fastforce simp: split: prod.splits sum.splits dest!: createBuffer_result)
qed

lemma createVertexBuffers_Inr:
  "createVertexBuffers bs buf dev = (Inr vbs, dev') \<Longrightarrow>
     vbs = [length (buffers dev) ..< length (buffers dev) + length bs] \<and>
     length (buffers dev') = length (buffers dev) + length bs"
proof (induction bs arbitrary: dev vbs dev')
  case Nil
  then show ?case by simp
next
  case (Cons vb bs)
  then show ?case
    proof -
    from Cons.prems obtain b dev1 view vbs' where
      cb: "createBuffer \<lparr>usage = {VERTEX, TRANSFER_DST}, memUsage = {HOST, DEVICE},
              size' = length' (data vb),
              stride = jsdiv (length' (data vb)) (verticesCount vb)\<rparr> dev = (Inr b, dev1)"
      and rest: "createVertexBuffers bs buf (GFXBuffer_update b view dev1) = (Inr vbs', dev')"
      and vbs: "vbs = b # vbs'"
      by (auto split: prod.splits sum.splits)
    from createBuffer_result [OF cb] have b: "b = length (buffers dev)"
      and l1: "length (buffers dev1) = Suc (length (buffers dev))" by auto
    have u: "[length (buffers dev) ..< length (buffers dev) + length (vb # bs)] =
        length (buffers dev) # [Suc (length (buffers dev)) ..< Suc (length (buffers dev)) + length bs]"
      by (simp add: upt_conv_Cons del: upt_Suc)
    from Cons.IH [OF rest] have "vbs' = [length (buffers dev1) ..< length (buffers dev1) + length bs]"
      and "length (buffers dev') = length (buffers dev1) + length bs" by auto
    with l1 b vbs u show ?thesis by (simp del: upt_Suc)
  qed
qed


lemma createVertexBuffers_total:
  "reliable dev \<Longrightarrow> list_all (\<lambda>vb. inBounds buf (data vb)) bs \<Longrightarrow>
     \<exists>vbs dev'. createVertexBuffers bs buf dev = (Inr vbs, dev')"
proof (induction bs arbitrary: dev)
  case Nil
  then show ?case by simp
next
  case (Cons vb bs)
  let ?info = "\<lparr>usage = {VERTEX, TRANSFER_DST}, memUsage = {HOST, DEVICE},
              size' = length' (data vb),
              stride = jsdiv (length' (data vb)) (verticesCount vb)\<rparr>"
  obtain r dev1 where cb: "createBuffer ?info dev = (r, dev1)" by fastforce
  from createBuffer_result [OF cb] Cons.prems(1) obtain b where r: "r = Inr b"
    and rel: "reliable dev1"
    by (cases r) (auto simp: reliable_def)
  from Cons.prems(2) obtain view where
    v: "newTypedArray Uint8Array buf (offset (data vb)) (length' (data vb)) = Inr view"
    by (auto simp: newTypedArray_def inBounds_def)
  have "reliable (GFXBuffer_update b view dev1)" using rel by (simp add: reliable_def)
  from Cons.IH [OF this] Cons.prems(2) obtain vbs dev' where
    "createVertexBuffers bs buf (GFXBuffer_update b view dev1) = (Inr vbs, dev')" by auto
  with cb r v show ?case by simp
qed

lemma createIndexBuffer_result:
  "createIndexBuffer prim buf dev = (r, dev') \<Longrightarrow>
     released dev' = released dev \<and> refuses dev' = refuses dev \<and>
     (\<exists>extra. buffers dev' = buffers dev @ extra) \<and>
     (case r of Inl e \<Rightarrow> True
      | Inr (ib, view) \<Rightarrow>
          (case indices prim of
             None \<Rightarrow> ib = None \<and> buffers dev' = buffers dev
           | Some ind \<Rightarrow> ib = Some (length (buffers dev)) \<and>
                         length (buffers dev') = Suc (length (buffers dev))))"
  by (auto simp: createIndexBuffer_def split: option.splits prod.splits sum.splits
           dest!: createBuffer_result)

lemma initPrimitive_frame:
  "initPrimitive bundles vbs buf prim dev = (r, prim', dev') \<Longrightarrow>
     released dev' = released dev \<and> refuses dev' = refuses dev \<and>
     (\<exists>extra. buffers dev' = buffers dev @ extra)"
  by (auto simp: initPrimitive_def Let_def split: option.splits prod.splits sum.splits
           dest!: createIndexBuffer_result)

lemma initPrimitive_Inr:
  "initPrimitive bundles vbs buf prim dev = (Inr (ib, sm), prim', dev') \<Longrightarrow>
     sub_primitiveMode sm = primitiveMode prim \<and>
     sub_vertexBuffers sm = map (vertexBufferAt vbs) (vertexBundelIndices prim) \<and>
     firstBundleAttributes bundles (vertexBundelIndices prim) = Inr (sub_attributes sm) \<and>
     sub_indexBuffer sm = ib \<and>
     (ib = None \<longleftrightarrow> indices prim = None) \<and>
     length (buffers dev') = length (buffers dev) + (if indices prim = None then 0 else 1)"
  by (auto simp: initPrimitive_def Let_def split: option.splits prod.splits sum.splits
           dest!: createIndexBuffer_result)


lemma initPrimitives_frame:
  "initPrimitives bundles vbs buf prims dev = (r, prims', dev') \<Longrightarrow>
     released dev' = released dev \<and> refuses dev' = refuses dev \<and>
     (\<exists>extra. buffers dev' = buffers dev @ extra)"
proof (induction prims arbitrary: dev r prims' dev')
  case Nil
  then show ?case by simp
next
  case (Cons prim rest)
  show ?case
  proof (cases "vertexBundelIndices prim = []")
    case True
    with Cons.prems obtain rest' where
      "initPrimitives bundles vbs buf rest dev = (r, rest', dev')"
      by (auto split: prod.splits)
    from Cons.IH [OF this] show ?thesis .
  next
    case False
    obtain r1 prim1 dev1 where ip: "initPrimitive bundles vbs buf prim dev = (r1, prim1, dev1)"
      by (metis prod_cases3)
    note f1 = initPrimitive_frame [OF ip]
    show ?thesis
    proof (cases r1)
      case (Inl e)
      with Cons.prems False ip have "dev' = dev1" by simp
      with f1 show ?thesis by simp
    next
      case (Inr p)
      obtain r2 rest2 dev2 where ips: "initPrimitives bundles vbs buf rest dev1 = (r2, rest2, dev2)"
        by (metis prod_cases3)
      from Cons.prems False ip Inr ips have "dev' = dev2"
        by (auto split: prod.splits sum.splits)
      with Cons.IH [OF ips] f1 show ?thesis by auto
    qed
  qed
qed

lemma initPrimitives_Inr:
  "initPrimitives bundles vbs buf prims dev = (Inr (ibs, sms), prims', dev') \<Longrightarrow>
     map sub_primitiveMode sms = map primitiveMode (filter renderable prims) \<and>
     map sub_vertexBuffers sms =
       map (\<lambda>prim. map (vertexBufferAt vbs) (vertexBundelIndices prim)) (filter renderable prims) \<and>
     map (\<lambda>sm. Inr (sub_attributes sm)) sms =
       map (\<lambda>prim. firstBundleAttributes bundles (vertexBundelIndices prim)) (filter renderable prims) \<and>
     map (\<lambda>sm. sub_indexBuffer sm = None) sms = map (\<lambda>prim. indices prim = None) (filter renderable prims) \<and>
     ibs = [length (buffers dev) ..< length (buffers dev) + length (filter (\<lambda>prim. renderable prim \<and> indexed prim) prims)] \<and>
     length (buffers dev') = length (buffers dev) + length ibs"
proof (induction prims arbitrary: dev ibs sms prims' dev')
  case Nil
  then show ?case by simp
next
  case (Cons prim rest)
  show ?case
  proof (cases "vertexBundelIndices prim = []")
    case True
    with Cons.prems obtain rest' where
      "initPrimitives bundles vbs buf rest dev = (Inr (ibs, sms), rest', dev')"
      by (auto split: prod.splits)
    from Cons.IH [OF this] True show ?thesis by (simp add: renderable_def)
  next
    case False
    from Cons.prems False obtain ib sm prim1 dev1 ibs2 sms2 rest2 where
      ip: "initPrimitive bundles vbs buf prim dev = (Inr (ib, sm), prim1, dev1)"
      and ips: "initPrimitives bundles vbs buf rest dev1 = (Inr (ibs2, sms2), rest2, dev')"
      and ibs: "ibs = (case ib of None \<Rightarrow> ibs2 | Some b \<Rightarrow> b # ibs2)"
      and sms: "sms = sm # sms2"
      by (auto split: prod.splits sum.splits)
    note h = initPrimitive_Inr [OF ip]
    note ih = Cons.IH [OF ips]
    have r: "renderable prim" using False by (simp add: renderable_def)
    show ?thesis
    proof (cases "indices prim")
      case None
      with h have "ib = None" "length (buffers dev1) = length (buffers dev)" by auto
      with ih h r None ibs sms show ?thesis by (simp add: indexed_def del: upt_Suc)
    next
      case (Some ind)
      with h obtain b where b: "ib = Some b"
        and l1: "length (buffers dev1) = Suc (length (buffers dev))" by auto
      from ip b Some have bv: "b = length (buffers dev)"
        by (auto simp: initPrimitive_def Let_def split: option.splits prod.splits sum.splits
                 dest!: createIndexBuffer_result)
      let ?k = "length (filter (\<lambda>prim. renderable prim \<and> indexed prim) rest)"
      have u: "[length (buffers dev) ..< length (buffers dev) + Suc ?k] =
        length (buffers dev) # [Suc (length (buffers dev)) ..< Suc (length (buffers dev)) + ?k]"
        by (simp add: upt_conv_Cons del: upt_Suc)
      from ih h r Some ibs sms b l1 bv u show ?thesis
        by (simp add: indexed_def del: upt_Suc)
    qed
  qed
qed

lemma initPrimitive_total:
  assumes "reliable dev" "validPrimitive buf (length bundles) prim" "alignedPrimitive prim"
  shows "\<exists>ib sm prim' dev'. initPrimitive bundles vbs buf prim dev = (Inr (ib, sm), prim', dev')"
proof -
  have ci: "\<exists>ib view dev1. createIndexBuffer prim buf dev = (Inr (ib, view), dev1)"
  proof (cases "indices prim")
    case None
    then show ?thesis by (simp add: createIndexBuffer_def)
  next
    case (Some ind)
    let ?s = "getIndexUnitStride (indexUnit ind)"
    from assms(2) Some have ib: "offset (range' ind) + length' (range' ind) \<le> length buf"
      by (auto simp: validPrimitive_def inBounds_def)
    from assms(3) Some have al: "offset (range' ind) mod ?s = 0"
      by (auto simp: alignedPrimitive_def)
    have bpe: "BYTES_PER_ELEMENT (getIndexUnitCtor (indexUnit ind)) = ?s"
      by (cases "indexUnit ind") auto
    have "length' (range' ind) div ?s * ?s \<le> length' (range' ind)" by simp
    with ib have fit: "offset (range' ind) + length' (range' ind) div ?s * ?s \<le> length buf"
      by linarith
    from assms(1) have "\<not> refuses dev (attempts dev)" by (simp add: reliable_def)
    with Some al fit bpe show ?thesis
      by (simp add: createIndexBuffer_def createBuffer_def newTypedArray_def)
  qed
  then obtain ib view dev1 where c: "createIndexBuffer prim buf dev = (Inr (ib, view), dev1)"
    by blast
  have fa: "\<exists>attrs. firstBundleAttributes bundles (vertexBundelIndices prim) = Inr attrs"
    using assms(2) by (auto simp: firstBundleAttributes_def validPrimitive_def split: list.splits)
  then obtain attrs where a: "firstBundleAttributes bundles (vertexBundelIndices prim) = Inr attrs"
    by blast
  show ?thesis
  proof (cases "geometricInfo prim")
    case None
    with c a show ?thesis by (simp add: initPrimitive_def)
  next
    case (Some g)
    with assms(2) have ib: "offset (geomRange g) + length' (geomRange g) \<le> length buf"
      by (auto simp: validPrimitive_def inBounds_def)
    from Some assms(3) have al: "offset (geomRange g) mod 4 = 0"
      by (auto simp: alignedPrimitive_def)
    have "length' (geomRange g) div 4 * 4 \<le> length' (geomRange g)" by simp
    with ib have "offset (geomRange g) + length' (geomRange g) div 4 * 4 \<le> length buf"
      by linarith
    with al Some c a show ?thesis
      by (simp add: initPrimitive_def newTypedArray_def Let_def)
  qed
qed

lemma initPrimitives_total:
  "reliable dev \<Longrightarrow> list_all (validPrimitive buf (length bundles)) prims \<Longrightarrow>
   list_all alignedPrimitive prims \<Longrightarrow>
     \<exists>ibs sms prims' dev'. initPrimitives bundles vbs buf prims dev = (Inr (ibs, sms), prims', dev')"
proof (induction prims arbitrary: dev)
  case Nil
  then show ?case by simp
next
  case (Cons prim rest)
  show ?case
  proof (cases "vertexBundelIndices prim = []")
    case True
    from Cons.IH [OF Cons.prems(1)] Cons.prems(2,3) obtain ibs sms rest' dev' where
      "initPrimitives bundles vbs buf rest dev = (Inr (ibs, sms), rest', dev')" by auto
    with True show ?thesis by simp
  next
    case False
    from initPrimitive_total [OF Cons.prems(1), of buf bundles prim vbs] Cons.prems(2,3)
    obtain ib sm prim1 dev1 where
      ip: "initPrimitive bundles vbs buf prim dev = (Inr (ib, sm), prim1, dev1)" by auto
    from initPrimitive_frame [OF ip] Cons.prems(1) have "reliable dev1"
      by (simp add: reliable_def)
    from Cons.IH [OF this] Cons.prems(2,3) obtain ibs sms rest' dev' where
      "initPrimitives bundles vbs buf rest dev1 = (Inr (ibs, sms), rest', dev')" by auto
    with False ip show ?thesis by simp
  qed
qed

section \<open>Destroying a rendering mesh\<close>

lemma fold_GFXBuffer_destroy:
  "fold GFXBuffer_destroy bs dev = dev\<lparr>released := released dev @ bs\<rparr>"
  by (induction bs arbitrary: dev) (simp_all add: GFXBuffer_destroy_def)

lemma RenderingMesh_destroy_result:
  "RenderingMesh_destroy rm dev =
     (rm\<lparr>subMeshes := [], vertexBuffers := [], indexBuffers := []\<rparr>,
      dev\<lparr>released := released dev @ vertexBuffers rm @ indexBuffers rm\<rparr>)"
  by (simp add: RenderingMesh_destroy_def Let_def fold_GFXBuffer_destroy)

text \<open>
  C8. \<^verbatim>\<open>RenderingMesh.destroy\<close> is idempotent: a second call returns the rendering
  mesh and the device of the first call as they are, so it releases no buffer again;
  the first call releases the vertex buffers and then the index buffers, once each
  entry, and leaves the submesh list and both buffer lists empty. The method has no
  exit by an exception.
\<close>

theorem destroy_idempotent:
  "RenderingMesh_destroy (fst (RenderingMesh_destroy rm dev)) (snd (RenderingMesh_destroy rm dev))
     = RenderingMesh_destroy rm dev \<and>
   released (snd (RenderingMesh_destroy rm dev)) = released dev @ vertexBuffers rm @ indexBuffers rm \<and>
   subMeshes (fst (RenderingMesh_destroy rm dev)) = [] \<and>
   vertexBuffers (fst (RenderingMesh_destroy rm dev)) = [] \<and>
   indexBuffers (fst (RenderingMesh_destroy rm dev)) = []"
  by (simp add: RenderingMesh_destroy_result)

section \<open>Validation\<close>

lemma validateAttributes_refl: "validateAttributes as as = Inr True"
  by (induction as) simp_all

lemma validateVertexBundles_refl: "validateVertexBundles bs bs = Inr True"
  by (induction bs) (simp_all add: validateAttributes_refl)

lemma validateIndices_refl: "validateIndices ns ns = Inr True"
  by (induction ns) simp_all

lemma validatePrimitives_refl: "validatePrimitives ps ps = Inr True"
  by (induction ps) (simp_all add: validateIndices_refl split: option.splits)

text \<open>
  C9. \<^verbatim>\<open>validateMergingMesh(a, a)\<close> returns true, for every mesh \<open>a\<close>.
\<close>

theorem validateMergingMesh_reflexive: "validateMergingMesh a a = Inr True"
  by (simp add: validateMergingMesh_def validateVertexBundles_refl validatePrimitives_refl)

lemma validateAttributes_sym:
  "length as = length ds \<Longrightarrow> validateAttributes as ds = validateAttributes ds as"
  by (induction as ds rule: list_induct2) auto

lemma validateVertexBundles_sym:
  "length bs = length ds \<Longrightarrow> validateVertexBundles bs ds = validateVertexBundles ds bs"
proof (induction bs ds rule: list_induct2)
  case Nil
  then show ?case by simp
next
  case (Cons b bs d ds)
  show ?case
  proof (cases "length (attributes b) = length (attributes d)")
    case True
    from validateAttributes_sym [OF True] Cons.IH show ?thesis
      by (simp add: True split: sum.splits bool.splits)
  next
    case False
    then show ?thesis by auto
  qed
qed

lemma validateIndices_sym:
  "length ns = length ds \<Longrightarrow> validateIndices ns ds = validateIndices ds ns"
  by (induction ns ds rule: list_induct2) auto

lemma validatePrimitives_sym:
  "length ps = length ds \<Longrightarrow> validatePrimitives ps ds = validatePrimitives ds ps"
proof (induction ps ds rule: list_induct2)
  case Nil
  then show ?case by simp
next
  case (Cons p ps d ds)
  show ?case
  proof (cases "length (vertexBundelIndices p) = length (vertexBundelIndices d)")
    case True
    from validateIndices_sym [OF True] Cons.IH show ?thesis
      by (auto simp: True split: sum.splits bool.splits option.splits)
  next
    case False
    then show ?thesis by auto
  qed
qed

text \<open>Once the lengths were found equal the loops read no element that is not there, so
  \<^verbatim>\<open>validateMergingMesh\<close> always returns a boolean.\<close>

lemma validateAttributes_no_error:
  "length as = length ds \<Longrightarrow> validateAttributes as ds \<noteq> Inl e"
  by (induction as ds rule: list_induct2) auto

lemma validateVertexBundles_no_error:
  "length bs = length ds \<Longrightarrow> validateVertexBundles bs ds \<noteq> Inl e"
proof (induction bs ds rule: list_induct2)
  case Nil
  then show ?case by simp
next
  case (Cons b bs d ds)
  show ?case
  proof (cases "length (attributes b) = length (attributes d)")
    case True
    from validateAttributes_no_error [OF True] Cons.IH show ?thesis
      by (auto simp: True split: sum.splits bool.splits)
  next
    case False
    then show ?thesis by auto
  qed
qed

lemma validateIndices_no_error: "validateIndices ns ds \<noteq> Inl e"
  by (induction ns ds rule: validateIndices.induct) auto

lemma validatePrimitives_no_error:
  "length ps = length ds \<Longrightarrow> validatePrimitives ps ds \<noteq> Inl e"
proof (induction ps ds rule: list_induct2)
  case Nil
  then show ?case by simp
next
  case (Cons p ps d ds)
  from validateIndices_no_error Cons.IH show ?case
    by (auto split: sum.splits bool.splits option.splits)
qed

lemma validateMergingMesh_no_error: "validateMergingMesh a b \<noteq> Inl e"
  using validateVertexBundles_no_error validatePrimitives_no_error
  by (auto simp: validateMergingMesh_def split: sum.splits bool.splits)

text \<open>
  C10. \<^verbatim>\<open>validateMergingMesh(a, b)\<close> and \<^verbatim>\<open>validateMergingMesh(b, a)\<close> return the
  same value, for all meshes \<open>a\<close> and \<open>b\<close>.
\<close>

theorem validateMergingMesh_symmetric: "validateMergingMesh a b = validateMergingMesh b a"
proof (cases "length (vertexBundles (struct a)) = length (vertexBundles (struct b))")
  case bundles: True
  show ?thesis
  proof (cases "length (primitives (struct a)) = length (primitives (struct b))")
    case True
    from validateVertexBundles_sym [OF bundles] validatePrimitives_sym [OF True] bundles True
    show ?thesis by (simp add: validateMergingMesh_def split: sum.splits bool.splits)
  next
    case False
    with validateVertexBundles_sym [OF bundles] bundles show ?thesis
      by (auto simp: validateMergingMesh_def split: sum.splits bool.splits)
  qed
next
  case False
  then show ?thesis by (auto simp: validateMergingMesh_def)
qed

section \<open>Merge\<close>

text \<open>
  C5. When \<^verbatim>\<open>validateMergingMesh(a, b)\<close> is false, \<^verbatim>\<open>merge(a, b)\<close> with
  \<^verbatim>\<open>validate = true\<close> returns false and leaves \<open>a\<close> and \<open>b\<close> as they were, their
  vertex bundles, primitives and bounding box included.
\<close>

theorem merge_rejected_unchanged:
  "validateMergingMesh a b = Inr False \<Longrightarrow> merge a b (Some True) = (Inr False, a, b)"
  by (simp add: merge_def)

text \<open>The spec's example: two vertex bundles against one.\<close>

theorem merge_rejected_unchanged_witness:
  "validateMergingMesh twoBundleMesh overrunMesh = Inr False \<and>
   merge twoBundleMesh overrunMesh (Some True) = (Inr False, twoBundleMesh, overrunMesh)"
proof -
  have h: "validateMergingMesh twoBundleMesh overrunMesh = Inr False"
    by (simp add: validateMergingMesh_def twoBundleMesh_def overrunMesh_def meshOf_def)
  from merge_rejected_unchanged [OF h] h show ?thesis by simp
qed

section \<open>Failed allocations\<close>

text \<open>An operation of deferred initialization ends with the device's error exactly
  when one of the allocations it asked for was refused.\<close>

lemma allocationFailed_iff:
  "allocationFailed dev dev' \<longleftrightarrow> (\<exists>n. attempts dev \<le> n \<and> n < attempts dev' \<and> refuses dev n)"
  by (auto simp: allocationFailed_def)

lemma allocationFailed_trans:
  assumes "attempts dev \<le> attempts dev1" and "attempts dev1 \<le> attempts dev'"
    and "refuses dev1 = refuses dev"
  shows "allocationFailed dev dev' \<longleftrightarrow> allocationFailed dev dev1 \<or> allocationFailed dev1 dev'"
proof
  assume "allocationFailed dev dev'"
  then obtain n where n: "attempts dev \<le> n" "n < attempts dev'" "refuses dev n"
    unfolding allocationFailed_iff by blast
  show "allocationFailed dev dev1 \<or> allocationFailed dev1 dev'"
  proof (cases "n < attempts dev1")
    case True
    with n have "allocationFailed dev dev1" unfolding allocationFailed_iff by blast
    then show ?thesis ..
  next
    case False
    then have "attempts dev1 \<le> n" by simp
    with n assms(3) have "allocationFailed dev1 dev'" unfolding allocationFailed_iff by auto
    then show ?thesis ..
  qed
next
  assume "allocationFailed dev dev1 \<or> allocationFailed dev1 dev'"
  then show "allocationFailed dev dev'"
  proof
    assume "allocationFailed dev dev1"
    then obtain n where n: "attempts dev \<le> n" "n < attempts dev1" "refuses dev n"
      unfolding allocationFailed_iff by blast
    from n(2) assms(2) have "n < attempts dev'" by simp
    with n show ?thesis unfolding allocationFailed_iff by blast
  next
    assume "allocationFailed dev1 dev'"
    then obtain n where n: "attempts dev1 \<le> n" "n < attempts dev'" "refuses dev1 n"
      unfolding allocationFailed_iff by blast
    from n(1) assms(1) have "attempts dev \<le> n" by simp
    with n assms(3) show ?thesis unfolding allocationFailed_iff by auto
  qed
qed

lemma allocationFailed_same [simp]: "\<not> allocationFailed dev dev"
  by (simp add: allocationFailed_iff)

lemma allocationFailed_Suc:
  "attempts dev' = Suc (attempts dev) \<Longrightarrow> allocationFailed dev dev' \<longleftrightarrow> refuses dev (attempts dev)"
  by (simp add: allocationFailed_def)

lemma createBuffer_allocationFailed:
  assumes "createBuffer info dev = (r, dev')"
  shows "attempts dev \<le> attempts dev' \<and> (allocationFailed dev dev' \<longleftrightarrow> r = Inl DeviceError)"
proof -
  from assms have a: "attempts dev' = Suc (attempts dev)"
    and r: "r = Inl DeviceError \<longleftrightarrow> refuses dev (attempts dev)"
    by (auto simp: createBuffer_def split: if_splits)
  from allocationFailed_Suc [OF a] a r show ?thesis by simp
qed

lemma newTypedArray_error: "newTypedArray T buf off len = Inl e \<Longrightarrow> e = RangeError"
  by (auto simp: newTypedArray_def split: if_splits)

lemma createVertexBuffers_allocationFailed:
  "createVertexBuffers bs buf dev = (r, dev') \<Longrightarrow>
     attempts dev \<le> attempts dev' \<and> (allocationFailed dev dev' \<longleftrightarrow> r = Inl DeviceError)"
proof (induction bs arbitrary: dev r dev')
  case Nil
  then show ?case by auto
next
  case (Cons vb bs)
  let ?info = "\<lparr>usage = {VERTEX, TRANSFER_DST}, memUsage = {HOST, DEVICE},
              size' = length' (data vb),
              stride = jsdiv (length' (data vb)) (verticesCount vb)\<rparr>"
  obtain r1 dev1 where cb: "createBuffer ?info dev = (r1, dev1)" by fastforce
  note a1 = createBuffer_allocationFailed [OF cb]
  from createBuffer_result [OF cb] have rf: "refuses dev1 = refuses dev" by simp
  show ?case
  proof (cases r1)
    case (Inl e)
    with Cons.prems cb have "r = Inl e" "dev' = dev1" by auto
    with a1 Inl show ?thesis by auto
  next
    case (Inr b)
    show ?thesis
    proof (cases "newTypedArray Uint8Array buf (offset (data vb)) (length' (data vb))")
      case (Inl e)
      with Cons.prems cb Inr have "r = Inl e" "dev' = dev1" by auto
      with a1 Inr newTypedArray_error [OF Inl] show ?thesis by auto
    next
      case view: (Inr view)
      obtain r2 dev2 where
        rec: "createVertexBuffers bs buf (GFXBuffer_update b view dev1) = (r2, dev2)" by fastforce
      from Cons.IH [OF rec] have a2: "attempts dev1 \<le> attempts dev2"
        and f2: "allocationFailed (GFXBuffer_update b view dev1) dev2 \<longleftrightarrow> r2 = Inl DeviceError"
        by auto
      have same: "allocationFailed (GFXBuffer_update b view dev1) dev2 = allocationFailed dev1 dev2"
        by (simp add: allocationFailed_iff)
      from Cons.prems cb Inr view rec have d: "dev' = dev2"
        and r: "r = Inl DeviceError \<longleftrightarrow> r2 = Inl DeviceError"
        by (auto split: sum.splits)
      from a1 a2 rf have "allocationFailed dev dev2 \<longleftrightarrow> allocationFailed dev dev1 \<or> allocationFailed dev1 dev2"
        by (intro allocationFailed_trans) auto
      with a1 a2 f2 same d r Inr show ?thesis by auto
    qed
  qed
qed

lemma createIndexBuffer_allocationFailed:
  "createIndexBuffer prim buf dev = (r, dev') \<Longrightarrow>
     attempts dev \<le> attempts dev' \<and> (allocationFailed dev dev' \<longleftrightarrow> r = Inl DeviceError)"
proof (cases "indices prim")
  case None
  assume "createIndexBuffer prim buf dev = (r, dev')"
  with None show ?thesis by (auto simp: createIndexBuffer_def)
next
  case (Some ind)
  assume c: "createIndexBuffer prim buf dev = (r, dev')"
  let ?info = "\<lparr>usage = {INDEX, TRANSFER_DST}, memUsage = {HOST, DEVICE},
                   size' = length' (range' ind),
                   stride = Finite (of_nat (getIndexUnitStride (indexUnit ind)))\<rparr>"
  obtain r1 dev1 where cb: "createBuffer ?info dev = (r1, dev1)" by fastforce
  note a1 = createBuffer_allocationFailed [OF cb]
  show ?thesis
  proof (cases r1)
    case (Inl e)
    with c cb Some have "r = Inl e" "dev' = dev1" by (auto simp: createIndexBuffer_def)
    with a1 Inl show ?thesis by auto
  next
    case (Inr b)
    show ?thesis
    proof (cases "newTypedArray (getIndexUnitCtor (indexUnit ind)) buf (offset (range' ind))
                       (length' (range' ind) div getIndexUnitStride (indexUnit ind))")
      case (Inl e)
      with c cb Some Inr have "r = Inl e" "dev' = dev1" by (auto simp: createIndexBuffer_def)
      with a1 Inr newTypedArray_error [OF Inl] show ?thesis by auto
    next
      case view: (Inr view)
      with c cb Some Inr have "r = Inr (Some b, Some view)" "dev' = GFXBuffer_update b view dev1"
        by (auto simp: createIndexBuffer_def)
      with a1 Inr show ?thesis by (auto simp: allocationFailed_iff)
    qed
  qed
qed

lemma firstBundleAttributes_error:
  "firstBundleAttributes bundles vbi = Inl e \<Longrightarrow> e = TypeError"
  by (auto simp: firstBundleAttributes_def split: list.splits if_splits)

lemma initPrimitive_allocationFailed:
  assumes "initPrimitive bundles vbs buf prim dev = (r, prim', dev')"
  shows "attempts dev \<le> attempts dev' \<and> (allocationFailed dev dev' \<longleftrightarrow> r = Inl DeviceError)"
proof -
  obtain r1 dev1 where c: "createIndexBuffer prim buf dev = (r1, dev1)" by fastforce
  note a1 = createIndexBuffer_allocationFailed [OF c]
  show ?thesis
  proof (cases r1)
    case (Inl e)
    with assms c have "r = Inl e" "dev' = dev1" by (simp_all add: initPrimitive_def)
    with a1 Inl show ?thesis by simp
  next
    case (Inr p)
    obtain ib view where p: "p = (ib, view)" by fastforce
    have "dev' = dev1 \<and> r \<noteq> Inl DeviceError"
    proof (cases "firstBundleAttributes bundles (vertexBundelIndices prim)")
      case (Inl e)
      with assms c Inr p firstBundleAttributes_error [OF Inl] show ?thesis
        by (auto simp: initPrimitive_def)
    next
      case attrs: (Inr attrs)
      show ?thesis
      proof (cases "geometricInfo prim")
        case None
        with assms c Inr p attrs show ?thesis by (auto simp: initPrimitive_def)
      next
        case (Some g)
        show ?thesis
        proof (cases "newTypedArray Float32Array buf (offset (geomRange g)) (length' (geomRange g) div 4)")
          case (Inl e)
          with assms c Inr p attrs Some newTypedArray_error [OF Inl] show ?thesis
            by (auto simp: initPrimitive_def)
        next
          case view: (Inr v)
          with assms c Inr p attrs Some show ?thesis
            by (auto simp: initPrimitive_def Let_def)
        qed
      qed
    qed
    with a1 Inr show ?thesis by simp
  qed
qed

lemma initPrimitives_allocationFailed:
  "initPrimitives bundles vbs buf prims dev = (r, prims', dev') \<Longrightarrow>
     attempts dev \<le> attempts dev' \<and> (allocationFailed dev dev' \<longleftrightarrow> r = Inl DeviceError)"
proof (induction prims arbitrary: dev r prims' dev')
  case Nil
  then show ?case by auto
next
  case (Cons prim rest)
  show ?case
  proof (cases "vertexBundelIndices prim = []")
    case True
    with Cons.prems obtain rest' where
      "initPrimitives bundles vbs buf rest dev = (r, rest', dev')"
      by (auto split: prod.splits)
    from Cons.IH [OF this] show ?thesis .
  next
    case False
    obtain r1 prim1 dev1 where ip: "initPrimitive bundles vbs buf prim dev = (r1, prim1, dev1)"
      by (metis prod_cases3)
    note a1 = initPrimitive_allocationFailed [OF ip]
    from initPrimitive_frame [OF ip] have rf: "refuses dev1 = refuses dev" by simp
    show ?thesis
    proof (cases r1)
      case (Inl e)
      with Cons.prems False ip have "dev' = dev1" "r = Inl e" by auto
      with a1 Inl show ?thesis by simp
    next
      case (Inr p)
      obtain r2 rest2 dev2 where ips: "initPrimitives bundles vbs buf rest dev1 = (r2, rest2, dev2)"
        by (metis prod_cases3)
      from Cons.prems False ip Inr ips have d: "dev' = dev2"
        and r: "r = Inl DeviceError \<longleftrightarrow> r2 = Inl DeviceError"
        by (auto split: prod.splits sum.splits)
      from Cons.IH [OF ips] have a2: "attempts dev1 \<le> attempts dev2"
        and f2: "allocationFailed dev1 dev2 \<longleftrightarrow> r2 = Inl DeviceError" by auto
      from a1 a2 rf have "allocationFailed dev dev2 \<longleftrightarrow> allocationFailed dev dev1 \<or> allocationFailed dev1 dev2"
        by (intro allocationFailed_trans) auto
      with a1 a2 f2 d r Inr show ?thesis by auto
    qed
  qed
qed

section \<open>Merging compatible meshes\<close>

lemma validateMergingMesh_True_lengths:
  assumes "validateMergingMesh a b = Inr True"
  shows "length (vertexBundles (struct a)) = length (vertexBundles (struct b))"
    and "length (primitives (struct a)) = length (primitives (struct b))"
  using assms by (auto simp: validateMergingMesh_def split: if_splits sum.splits bool.splits)

lemma mergeVertexBundles_same_length:
  "length bs = length ds \<Longrightarrow>
     mergeVertexBundles bs ds =
       (None, map2 (\<lambda>bundle dstBundle.
                 bundle\<lparr>data := (data bundle)\<lparr>length' := length' (data bundle) + length' (data dstBundle)\<rparr>,
                        verticesCount := verticesCount bundle + verticesCount dstBundle\<rparr>) bs ds)"
  by (induction bs ds rule: list_induct2) (simp_all add: Let_def)

lemma mergePrimitives_same_length:
  "length ps = length ds \<Longrightarrow>
     mergePrimitives ps ds =
       (None, map2 (\<lambda>prim dstPrim.
                 case (indices prim, indices dstPrim) of
                   (Some ind, Some dstInd) \<Rightarrow>
                     prim\<lparr>indices := Some (ind\<lparr>range' := (range' ind)\<lparr>length' := length' (range' ind) + length' (range' dstInd)\<rparr>\<rparr>)\<rparr>
                 | _ \<Rightarrow> prim) ps ds)"
  by (induction ps ds rule: list_induct2) (simp_all add: Let_def)

text \<open>
  C6. For meshes \<open>a\<close> and \<open>b\<close> that \<^verbatim>\<open>validateMergingMesh\<close> accepts, \<^verbatim>\<open>merge(a, b)\<close>
  returns true, with or without validation, and leaves \<open>b\<close> as it was and \<open>a\<close>
  changed as follows and in nothing else: every vertex bundle of \<open>a\<close> has the
  \<^verbatim>\<open>data.length\<close> and the \<^verbatim>\<open>verticesCount\<close> of the bundle of \<open>b\<close> at its position
  added to its own; every primitive of \<open>a\<close> that has indices, where the primitive of
  \<open>b\<close> at its position has indices too, has that one's \<^verbatim>\<open>indices.range.length\<close>
  added to its own, and the other primitives are unchanged; \<^verbatim>\<open>maxPosition\<close> and
  \<^verbatim>\<open>minPosition\<close> become the component-wise maximum and minimum where both meshes
  have them and are unchanged otherwise.
\<close>

theorem merge_compatible:
  assumes "validateMergingMesh a b = Inr True"
  shows "\<exists>a'. merge a b validate = (Inr True, a', b) \<and>
     length (vertexBundles (struct a')) = length (vertexBundles (struct a)) \<and>
     (\<forall>i < length (vertexBundles (struct a)).
        vertexBundles (struct a') ! i =
          (vertexBundles (struct a) ! i)
            \<lparr>data := (data (vertexBundles (struct a) ! i))
                       \<lparr>length' := length' (data (vertexBundles (struct a) ! i)) +
                                   length' (data (vertexBundles (struct b) ! i))\<rparr>,
             verticesCount := verticesCount (vertexBundles (struct a) ! i) +
                              verticesCount (vertexBundles (struct b) ! i)\<rparr>) \<and>
     length (primitives (struct a')) = length (primitives (struct a)) \<and>
     (\<forall>i < length (primitives (struct a)).
        primitives (struct a') ! i =
          (case (indices (primitives (struct a) ! i), indices (primitives (struct b) ! i)) of
             (Some ind, Some dstInd) \<Rightarrow>
               (primitives (struct a) ! i)
                 \<lparr>indices := Some (ind\<lparr>range' := (range' ind)
                                      \<lparr>length' := length' (range' ind) + length' (range' dstInd)\<rparr>\<rparr>)\<rparr>
           | _ \<Rightarrow> primitives (struct a) ! i)) \<and>
     maxPosition (struct a') =
       (case (maxPosition (struct a), maxPosition (struct b)) of
          (Some p, Some q) \<Rightarrow>
            Some \<lparr>vec_x = max (vec_x p) (vec_x q), vec_y = max (vec_y p) (vec_y q),
                  vec_z = max (vec_z p) (vec_z q)\<rparr>
        | _ \<Rightarrow> maxPosition (struct a)) \<and>
     minPosition (struct a') =
       (case (minPosition (struct a), minPosition (struct b)) of
          (Some p, Some q) \<Rightarrow>
            Some \<lparr>vec_x = min (vec_x p) (vec_x q), vec_y = min (vec_y p) (vec_y q),
                  vec_z = min (vec_z p) (vec_z q)\<rparr>
        | _ \<Rightarrow> minPosition (struct a)) \<and>
     mesh_data a' = mesh_data a \<and> initialized a' = initialized a \<and>
     renderingMesh a' = renderingMesh a"
proof -
  note len = validateMergingMesh_True_lengths [OF assms]
  let ?bs = "map2 (\<lambda>bundle dstBundle.
                 bundle\<lparr>data := (data bundle)\<lparr>length' := length' (data bundle) + length' (data dstBundle)\<rparr>,
                        verticesCount := verticesCount bundle + verticesCount dstBundle\<rparr>)
               (vertexBundles (struct a)) (vertexBundles (struct b))"
  let ?ps = "map2 (\<lambda>prim dstPrim.
                 case (indices prim, indices dstPrim) of
                   (Some ind, Some dstInd) \<Rightarrow>
                     prim\<lparr>indices := Some (ind\<lparr>range' := (range' ind)\<lparr>length' := length' (range' ind) + length' (range' dstInd)\<rparr>\<rparr>)\<rparr>
                 | _ \<Rightarrow> prim) (primitives (struct a)) (primitives (struct b))"
  define a' where "a' =
     a\<lparr>struct := mergeBoundingBox ((struct a)\<lparr>vertexBundles := ?bs, primitives := ?ps\<rparr>) (struct b)\<rparr>"
  have m: "merge a b validate = (Inr True, a', b)"
    using assms
    by (simp add: a'_def merge_def mergeVertexBundles_same_length [OF len(1)]
        mergePrimitives_same_length [OF len(2)] Let_def)
  have vb: "vertexBundles (struct a') = ?bs" and pr: "primitives (struct a') = ?ps"
    by (simp_all add: a'_def mergeBoundingBox_def Let_def split: option.splits)
  have c1: "length (vertexBundles (struct a')) = length (vertexBundles (struct a))"
    using len(1) by (simp add: vb)
  have c2: "\<forall>i < length (vertexBundles (struct a)).
        vertexBundles (struct a') ! i =
          (vertexBundles (struct a) ! i)
            \<lparr>data := (data (vertexBundles (struct a) ! i))
                       \<lparr>length' := length' (data (vertexBundles (struct a) ! i)) +
                                   length' (data (vertexBundles (struct b) ! i))\<rparr>,
             verticesCount := verticesCount (vertexBundles (struct a) ! i) +
                              verticesCount (vertexBundles (struct b) ! i)\<rparr>"
    using len(1) by (simp add: vb)
  have c3: "length (primitives (struct a')) = length (primitives (struct a))"
    using len(2) by (simp add: pr)
  have c4: "\<forall>i < length (primitives (struct a)).
        primitives (struct a') ! i =
          (case (indices (primitives (struct a) ! i), indices (primitives (struct b) ! i)) of
             (Some ind, Some dstInd) \<Rightarrow>
               (primitives (struct a) ! i)
                 \<lparr>indices := Some (ind\<lparr>range' := (range' ind)
                                      \<lparr>length' := length' (range' ind) + length' (range' dstInd)\<rparr>\<rparr>)\<rparr>
           | _ \<Rightarrow> primitives (struct a) ! i)"
    using len(2) by (simp add: pr)
  have c5: "maxPosition (struct a') =
       (case (maxPosition (struct a), maxPosition (struct b)) of
          (Some p, Some q) \<Rightarrow>
            Some \<lparr>vec_x = max (vec_x p) (vec_x q), vec_y = max (vec_y p) (vec_y q),
                  vec_z = max (vec_z p) (vec_z q)\<rparr>
        | _ \<Rightarrow> maxPosition (struct a))"
    by (simp add: a'_def mergeBoundingBox_def mergeMax_def Let_def split: option.splits)
  have c6: "minPosition (struct a') =
       (case (minPosition (struct a), minPosition (struct b)) of
          (Some p, Some q) \<Rightarrow>
            Some \<lparr>vec_x = min (vec_x p) (vec_x q), vec_y = min (vec_y p) (vec_y q),
                  vec_z = min (vec_z p) (vec_z q)\<rparr>
        | _ \<Rightarrow> minPosition (struct a))"
    by (simp add: a'_def mergeBoundingBox_def mergeMin_def Let_def split: option.splits)
  have c7: "mesh_data a' = mesh_data a" and c8: "initialized a' = initialized a"
    and c9: "renderingMesh a' = renderingMesh a"
    by (simp_all add: a'_def)
  show ?thesis
    by (intro exI [of _ a'] conjI) (fact m c1 c2 c3 c4 c5 c6 c7 c8 c9)+
qed

text \<open>The spec's examples: 100 bytes of 10 vertices merged with 50 bytes of 5 vertices, and
  the maximum of (1, 2, 3) and (4, 0, 5).\<close>

theorem merge_compatible_witness:
  "validateMergingMesh mergeLeft mergeRight = Inr True \<and>
   fst (merge mergeLeft mergeRight None) = Inr True \<and>
   map (\<lambda>vb. (length' (data vb), verticesCount vb))
       (vertexBundles (struct (fst (snd (merge mergeLeft mergeRight None))))) = [(150, 15)] \<and>
   map (\<lambda>prim. map_option (\<lambda>ind. length' (range' ind)) (indices prim))
       (primitives (struct (fst (snd (merge mergeLeft mergeRight None))))) = [Some 18] \<and>
   maxPosition (struct (fst (snd (merge mergeLeft mergeRight None)))) =
     Some \<lparr>vec_x = 4, vec_y = 2, vec_z = 5\<rparr> \<and>
   minPosition (struct (fst (snd (merge mergeLeft mergeRight None)))) =
     Some \<lparr>vec_x = -1, vec_y = 0, vec_z = -2\<rparr>"
proof -
  have h: "validateMergingMesh mergeLeft mergeRight = Inr True"
    by (simp add: validateMergingMesh_def example_defs)
  from merge_compatible [OF h, of None] obtain a' where
    m: "merge mergeLeft mergeRight None = (Inr True, a', mergeRight)"
    and lb: "length (vertexBundles (struct a')) = length (vertexBundles (struct mergeLeft))"
    and b: "\<forall>i < length (vertexBundles (struct mergeLeft)).
        vertexBundles (struct a') ! i =
          (vertexBundles (struct mergeLeft) ! i)
            \<lparr>data := (data (vertexBundles (struct mergeLeft) ! i))
                       \<lparr>length' := length' (data (vertexBundles (struct mergeLeft) ! i)) +
                                   length' (data (vertexBundles (struct mergeRight) ! i))\<rparr>,
             verticesCount := verticesCount (vertexBundles (struct mergeLeft) ! i) +
                              verticesCount (vertexBundles (struct mergeRight) ! i)\<rparr>"
    and lp: "length (primitives (struct a')) = length (primitives (struct mergeLeft))"
    and p: "\<forall>i < length (primitives (struct mergeLeft)).
        primitives (struct a') ! i =
          (case (indices (primitives (struct mergeLeft) ! i), indices (primitives (struct mergeRight) ! i)) of
             (Some ind, Some dstInd) \<Rightarrow>
               (primitives (struct mergeLeft) ! i)
                 \<lparr>indices := Some (ind\<lparr>range' := (range' ind)
                                      \<lparr>length' := length' (range' ind) + length' (range' dstInd)\<rparr>\<rparr>)\<rparr>
           | _ \<Rightarrow> primitives (struct mergeLeft) ! i)"
    and mx: "maxPosition (struct a') =
       (case (maxPosition (struct mergeLeft), maxPosition (struct mergeRight)) of
          (Some p, Some q) \<Rightarrow>
            Some \<lparr>vec_x = max (vec_x p) (vec_x q), vec_y = max (vec_y p) (vec_y q),
                  vec_z = max (vec_z p) (vec_z q)\<rparr>
        | _ \<Rightarrow> maxPosition (struct mergeLeft))"
    and mn: "minPosition (struct a') =
       (case (minPosition (struct mergeLeft), minPosition (struct mergeRight)) of
          (Some p, Some q) \<Rightarrow>
            Some \<lparr>vec_x = min (vec_x p) (vec_x q), vec_y = min (vec_y p) (vec_y q),
                  vec_z = min (vec_z p) (vec_z q)\<rparr>
        | _ \<Rightarrow> minPosition (struct mergeLeft))"
    by blast
  from lb obtain vb where vb: "vertexBundles (struct a') = [vb]"
    by (auto simp: example_defs length_Suc_conv)
  from lp obtain pr where pr: "primitives (struct a') = [pr]"
    by (auto simp: example_defs length_Suc_conv)
  from b vb have vbv: "length' (data vb) = 150 \<and> verticesCount vb = 15"
    by (simp add: example_defs)
  from p pr have prv: "map_option (\<lambda>ind. length' (range' ind)) (indices pr) = Some 18"
    by (simp add: example_defs)
  from mx have mxv: "maxPosition (struct a') = Some \<lparr>vec_x = 4, vec_y = 2, vec_z = 5\<rparr>"
    by (simp add: example_defs)
  from mn have mnv: "minPosition (struct a') = Some \<lparr>vec_x = -1, vec_y = 0, vec_z = -2\<rparr>"
    by (simp add: example_defs)
  from h m vb pr vbv prv mxv mnv show ?thesis by simp
qed

section \<open>Deferred initialization\<close>

text \<open>
  The three ways out of \<^verbatim>\<open>_deferredInit\<close> for a mesh that has data and is not
  initialized: an exception while the vertex buffers are made, an exception in the loop
  over the primitives, and the construction of the rendering mesh.
\<close>

lemma deferredInit_cases:
  assumes "\<not> initialized this" and "mesh_data this = Some d"
    and "deferredInit this dev = (r, this', dev')"
  obtains (vertex) e where
      "createVertexBuffers (vertexBundles (struct this)) (buffer d) dev = (Inl e, dev')"
      "r = Some e" "this' = this\<lparr>initialized := True\<rparr>"
  | (primitive) vbs dev1 e prims' where
      "createVertexBuffers (vertexBundles (struct this)) (buffer d) dev = (Inr vbs, dev1)"
      "initPrimitives (vertexBundles (struct this)) vbs (buffer d) (primitives (struct this)) dev1
         = (Inl e, prims', dev')"
      "r = Some e"
      "this' = this\<lparr>initialized := True, struct := (struct this)\<lparr>primitives := prims'\<rparr>\<rparr>"
  | (built) vbs dev1 ibs sms prims' where
      "createVertexBuffers (vertexBundles (struct this)) (buffer d) dev = (Inr vbs, dev1)"
      "initPrimitives (vertexBundles (struct this)) vbs (buffer d) (primitives (struct this)) dev1
         = (Inr (ibs, sms), prims', dev')"
      "r = None"
      "this' = this\<lparr>initialized := True, struct := (struct this)\<lparr>primitives := prims'\<rparr>,
                     renderingMesh := Some \<lparr>subMeshes = sms, vertexBuffers = vbs, indexBuffers = ibs\<rparr>\<rparr>"
proof -
  obtain r1 dev1 where c: "createVertexBuffers (vertexBundles (struct this)) (buffer d) dev = (r1, dev1)"
    by fastforce
  show ?thesis
  proof (cases r1)
    case (Inl e)
    with assms c have "r = Some e" "this' = this\<lparr>initialized := True\<rparr>" "dev' = dev1"
      by (simp_all add: deferredInit_def)
    with c Inl vertex show ?thesis by simp
  next
    case (Inr vbs)
    obtain r2 prims' dev2 where
      i: "initPrimitives (vertexBundles (struct this)) vbs (buffer d) (primitives (struct this)) dev1
            = (r2, prims', dev2)"
      by (metis prod_cases3)
    show ?thesis
    proof (cases r2)
      case (Inl e)
      with assms c Inr i have "r = Some e" "dev' = dev2"
        "this' = this\<lparr>initialized := True, struct := (struct this)\<lparr>primitives := prims'\<rparr>\<rparr>"
        by (simp_all add: deferredInit_def)
      with c Inr i Inl primitive show ?thesis by simp
    next
      case res: (Inr p)
      obtain ibs sms where p: "p = (ibs, sms)" by fastforce
      with assms c Inr i res have "r = None" "dev' = dev2"
        "this' = this\<lparr>initialized := True, struct := (struct this)\<lparr>primitives := prims'\<rparr>,
                     renderingMesh := Some \<lparr>subMeshes = sms, vertexBuffers = vbs, indexBuffers = ibs\<rparr>\<rparr>"
        by (simp_all add: deferredInit_def)
      with c Inr i res p built show ?thesis by simp
    qed
  qed
qed

text \<open>
  The definitions of the operations, for evaluating deferred initialization on an
  example.
\<close>

lemmas run_defs = deferredInit_def createBuffer_def newTypedArray_def GFXBuffer_update_def jsdiv_def
  initPrimitive_def createIndexBuffer_def firstBundleAttributes_def vertexBufferAt_def Let_def

subsection \<open>Submeshes\<close>

text \<open>
  C7 as stated fails: a valid pair can leave deferred initialization with an exception
  and no submesh. The mesh is a valid pair with its 16 bytes, its bundle's length is a
  multiple of its number of vertices, and the device refuses no allocation; its one
  primitive names bundle 0 and has six bytes of 16-bit indices at byte 9. The view
  \<^verbatim>\<open>new Uint16Array(buffer, 9, 3)\<close> raises a RangeError, since 9 is not a multiple of
  2, and no rendering mesh is constructed.
\<close>

theorem misaligned_indices_give_no_submesh:
  "\<not> initialized misalignedMesh \<and> mesh_data misalignedMesh = Some (zeroBytes 16) \<and>
   validStruct (buffer (zeroBytes 16)) (struct misalignedMesh) \<and>
   list_all wholeStride (vertexBundles (struct misalignedMesh)) \<and>
   reliable dev0 \<and>
   length (filter renderable (primitives (struct misalignedMesh))) = 1 \<and>
   fst (deferredInit misalignedMesh dev0) = Some RangeError \<and>
   renderingMesh (fst (snd (deferredInit misalignedMesh dev0))) = None"
  by (simp add: example_defs run_defs validStruct_def validPrimitive_def inBounds_def
      wholeStride_def reliable_def renderable_def)

text \<open>
  C7, amended. Whenever deferred initialization of a mesh that has data and is not
  initialized completes, the rendering mesh it constructs has exactly one submesh for
  each primitive whose \<^verbatim>\<open>vertexBundelIndices\<close> is not empty, in the order of the
  primitives, each with the mode of its primitive, the vertex buffers its primitive
  names, the attributes of the first bundle named and an index buffer exactly when the
  primitive has indices; a primitive with an empty list gets no submesh and raises
  nothing. It completes for every valid pair whose index data start at a multiple of
  the index stride and whose raycast data start at a multiple of 4, when the device
  refuses no allocation.
\<close>

theorem deferredInit_submeshes:
  assumes "\<not> initialized this" and "mesh_data this = Some d"
    and "deferredInit this dev = (r, this', dev')"
  shows "(validStruct (buffer d) (struct this) \<and> alignedStruct (struct this) \<and> reliable dev
            \<longrightarrow> r = None) \<and>
     (r = None \<longrightarrow>
       (\<exists>rm. renderingMesh this' = Some rm \<and>
          length (subMeshes rm) = length (filter renderable (primitives (struct this))) \<and>
          map sub_primitiveMode (subMeshes rm) =
            map primitiveMode (filter renderable (primitives (struct this))) \<and>
          map sub_vertexBuffers (subMeshes rm) =
            map (\<lambda>prim. map (vertexBufferAt (vertexBuffers rm)) (vertexBundelIndices prim))
              (filter renderable (primitives (struct this))) \<and>
          map (\<lambda>sm. Inr (sub_attributes sm)) (subMeshes rm) =
            map (\<lambda>prim. firstBundleAttributes (vertexBundles (struct this)) (vertexBundelIndices prim))
              (filter renderable (primitives (struct this))) \<and>
          map (\<lambda>sm. sub_indexBuffer sm = None) (subMeshes rm) =
            map (\<lambda>prim. indices prim = None) (filter renderable (primitives (struct this)))))"
proof
  show "validStruct (buffer d) (struct this) \<and> alignedStruct (struct this) \<and> reliable dev
          \<longrightarrow> r = None"
  proof
    assume v: "validStruct (buffer d) (struct this) \<and> alignedStruct (struct this) \<and> reliable dev"
    then have b: "list_all (\<lambda>vb. inBounds (buffer d) (data vb)) (vertexBundles (struct this))"
      and p: "list_all (validPrimitive (buffer d) (length (vertexBundles (struct this))))
                (primitives (struct this))"
      and al: "list_all alignedPrimitive (primitives (struct this))"
      and rel: "reliable dev"
      by (simp_all add: validStruct_def alignedStruct_def)
    from createVertexBuffers_total [OF rel b] obtain vbs dev1 where
      c: "createVertexBuffers (vertexBundles (struct this)) (buffer d) dev = (Inr vbs, dev1)"
      by blast
    from createVertexBuffers_frame [OF c] rel have rel1: "reliable dev1"
      by (simp add: reliable_def)
    from initPrimitives_total [OF rel1 p al] obtain ibs sms prims' dev2 where
      "initPrimitives (vertexBundles (struct this)) vbs (buffer d) (primitives (struct this)) dev1
         = (Inr (ibs, sms), prims', dev2)"
      by blast
    with assms c show "r = None" by (simp add: deferredInit_def)
  qed
next
  show "r = None \<longrightarrow>
       (\<exists>rm. renderingMesh this' = Some rm \<and>
          length (subMeshes rm) = length (filter renderable (primitives (struct this))) \<and>
          map sub_primitiveMode (subMeshes rm) =
            map primitiveMode (filter renderable (primitives (struct this))) \<and>
          map sub_vertexBuffers (subMeshes rm) =
            map (\<lambda>prim. map (vertexBufferAt (vertexBuffers rm)) (vertexBundelIndices prim))
              (filter renderable (primitives (struct this))) \<and>
          map (\<lambda>sm. Inr (sub_attributes sm)) (subMeshes rm) =
            map (\<lambda>prim. firstBundleAttributes (vertexBundles (struct this)) (vertexBundelIndices prim))
              (filter renderable (primitives (struct this))) \<and>
          map (\<lambda>sm. sub_indexBuffer sm = None) (subMeshes rm) =
            map (\<lambda>prim. indices prim = None) (filter renderable (primitives (struct this))))"
  proof
    assume "r = None"
    with assms show "\<exists>rm. renderingMesh this' = Some rm \<and>
          length (subMeshes rm) = length (filter renderable (primitives (struct this))) \<and>
          map sub_primitiveMode (subMeshes rm) =
            map primitiveMode (filter renderable (primitives (struct this))) \<and>
          map sub_vertexBuffers (subMeshes rm) =
            map (\<lambda>prim. map (vertexBufferAt (vertexBuffers rm)) (vertexBundelIndices prim))
              (filter renderable (primitives (struct this))) \<and>
          map (\<lambda>sm. Inr (sub_attributes sm)) (subMeshes rm) =
            map (\<lambda>prim. firstBundleAttributes (vertexBundles (struct this)) (vertexBundelIndices prim))
              (filter renderable (primitives (struct this))) \<and>
          map (\<lambda>sm. sub_indexBuffer sm = None) (subMeshes rm) =
            map (\<lambda>prim. indices prim = None) (filter renderable (primitives (struct this)))"
    proof (cases rule: deferredInit_cases)
      case (vertex e)
      with \<open>r = None\<close> show ?thesis by simp
    next
      case (primitive vbs dev1 e prims')
      with \<open>r = None\<close> show ?thesis by simp
    next
      case (built vbs dev1 ibs sms prims')
      note h = initPrimitives_Inr [OF built(2)]
      from h have "length (map sub_primitiveMode sms) =
          length (map primitiveMode (filter renderable (primitives (struct this))))"
        by simp
      then have "length sms = length (filter renderable (primitives (struct this)))"
        by simp
      with h built(4) show ?thesis by simp
    qed
  qed
qed

text \<open>
  Three primitives of modes 1, 4 and 7, the first with an empty list: two submeshes, of
  modes 4 and 7.
\<close>

theorem deferredInit_submeshes_witness:
  "\<not> initialized exampleMesh \<and> mesh_data exampleMesh = Some (zeroBytes 16) \<and>
   validStruct (buffer (zeroBytes 16)) (struct exampleMesh) \<and>
   alignedStruct (struct exampleMesh) \<and> reliable dev0 \<and>
   fst (deferredInit exampleMesh dev0) = None \<and>
   map primitiveMode (primitives (struct exampleMesh)) = [1, 4, 7] \<and>
   map renderable (primitives (struct exampleMesh)) = [False, True, True] \<and>
   map_option (map sub_primitiveMode \<circ> subMeshes)
     (renderingMesh (fst (snd (deferredInit exampleMesh dev0)))) = Some [4, 7] \<and>
   map_option (map sub_vertexBuffers \<circ> subMeshes)
     (renderingMesh (fst (snd (deferredInit exampleMesh dev0)))) = Some [[Some 0], [Some 0]]"
proof -
  have h1: "\<not> initialized exampleMesh" and h2: "mesh_data exampleMesh = Some (zeroBytes 16)"
    by (simp_all add: exampleMesh_def meshOf_def)
  have v: "validStruct (buffer (zeroBytes 16)) (struct exampleMesh)"
    by (simp add: example_defs validStruct_def validPrimitive_def inBounds_def)
  have al: "alignedStruct (struct exampleMesh)"
    by (simp add: example_defs alignedStruct_def alignedPrimitive_def)
  have rel: "reliable dev0" by (simp add: reliable_def dev0_def)
  have h3: "deferredInit exampleMesh dev0 =
      (fst (deferredInit exampleMesh dev0), fst (snd (deferredInit exampleMesh dev0)),
       snd (snd (deferredInit exampleMesh dev0)))"
    by simp
  note t = deferredInit_submeshes [OF h1 h2 h3]
  from t v al rel have r: "fst (deferredInit exampleMesh dev0) = None" by blast
  with t obtain rm where
    rm: "renderingMesh (fst (snd (deferredInit exampleMesh dev0))) = Some rm"
    and m: "map sub_primitiveMode (subMeshes rm) =
            map primitiveMode (filter renderable (primitives (struct exampleMesh)))"
    and b: "map sub_vertexBuffers (subMeshes rm) =
            map (\<lambda>prim. map (vertexBufferAt (vertexBuffers rm)) (vertexBundelIndices prim))
              (filter renderable (primitives (struct exampleMesh)))"
    by blast
  have vb: "vertexBuffers rm = [0]"
    using rm by (auto simp: example_defs run_defs)
  have p: "map primitiveMode (primitives (struct exampleMesh)) = [1, 4, 7]"
    "map renderable (primitives (struct exampleMesh)) = [False, True, True]"
    by (simp_all add: example_defs renderable_def)
  from m have m': "map sub_primitiveMode (subMeshes rm) = [4, 7]"
    by (simp add: example_defs renderable_def)
  from b vb have b': "map sub_vertexBuffers (subMeshes rm) = [[Some 0], [Some 0]]"
    by (simp add: example_defs renderable_def vertexBufferAt_def)
  from h1 h2 v al rel r rm p m' b' show ?thesis by simp
qed

subsection \<open>Buffer counts\<close>

text \<open>
  C1 as stated fails: a primitive that has indices and an empty
  \<^verbatim>\<open>vertexBundelIndices\<close> is skipped before its index buffer would be created. The
  mesh has one primitive with indices, and its rendering mesh has no index buffer.
\<close>

theorem skipped_primitive_has_no_index_buffer:
  "fst (deferredInit skippedIndexedMesh dev0) = None \<and>
   map_option indexBuffers (renderingMesh (fst (snd (deferredInit skippedIndexedMesh dev0)))) = Some [] \<and>
   length (filter indexed (primitives (struct skippedIndexedMesh))) = 1"
  by (simp add: example_defs run_defs indexed_def)

text \<open>
  C1, amended. Whenever deferred initialization of a mesh that has data and is not
  initialized completes, the rendering mesh has one vertex buffer for each vertex
  bundle, and as many index buffers as there are primitives that have indices and a
  non-empty \<^verbatim>\<open>vertexBundelIndices\<close>; these buffers are distinct and are exactly the
  buffers the device allocated during the call.
\<close>

theorem deferredInit_buffer_counts:
  assumes "\<not> initialized this" and "mesh_data this = Some d"
    and "deferredInit this dev = (None, this', dev')"
  shows "\<exists>rm. renderingMesh this' = Some rm \<and>
     length (vertexBuffers rm) = length (vertexBundles (struct this)) \<and>
     length (indexBuffers rm) =
       length (filter (\<lambda>prim. renderable prim \<and> indexed prim) (primitives (struct this))) \<and>
     distinct (vertexBuffers rm @ indexBuffers rm) \<and>
     vertexBuffers rm @ indexBuffers rm = [length (buffers dev) ..< length (buffers dev')] \<and>
     length (buffers dev') =
       length (buffers dev) + length (vertexBuffers rm) + length (indexBuffers rm)"
  using assms
proof (cases rule: deferredInit_cases)
  case (vertex e)
  then show ?thesis by simp
next
  case (primitive vbs dev1 e prims')
  then show ?thesis by simp
next
  case (built vbs dev1 ibs sms prims')
  let ?n = "length (buffers dev)"
  let ?k = "length (filter (\<lambda>prim. renderable prim \<and> indexed prim) (primitives (struct this)))"
  from createVertexBuffers_Inr [OF built(1)]
  have v: "vbs = [?n ..< ?n + length (vertexBundles (struct this))]"
    and l1: "length (buffers dev1) = ?n + length (vertexBundles (struct this))" by auto
  from initPrimitives_Inr [OF built(2)]
  have i: "ibs = [length (buffers dev1) ..< length (buffers dev1) + ?k]"
    and l2: "length (buffers dev') = length (buffers dev1) + length ibs" by auto
  have app: "vbs @ ibs = [?n ..< length (buffers dev')]"
    using v i l1 l2 by (simp add: upt_add_eq_append [symmetric] del: upt_Suc)
  have "distinct (vbs @ ibs)" unfolding app by simp
  with v i l1 l2 app built(4) show ?thesis by simp
qed

text \<open>
  One bundle and three primitives, two of them with indices, of which one is skipped:
  one vertex buffer and one index buffer.
\<close>

theorem deferredInit_buffer_counts_witness:
  "\<not> initialized exampleMesh \<and> mesh_data exampleMesh = Some (zeroBytes 16) \<and>
   fst (deferredInit exampleMesh dev0) = None \<and>
   map_option vertexBuffers (renderingMesh (fst (snd (deferredInit exampleMesh dev0)))) = Some [0] \<and>
   map_option indexBuffers (renderingMesh (fst (snd (deferredInit exampleMesh dev0)))) = Some [1] \<and>
   length (buffers (snd (snd (deferredInit exampleMesh dev0)))) = 2 \<and>
   length (filter indexed (primitives (struct exampleMesh))) = 2"
proof -
  have h1: "\<not> initialized exampleMesh" and h2: "mesh_data exampleMesh = Some (zeroBytes 16)"
    by (simp_all add: exampleMesh_def meshOf_def)
  have r: "fst (deferredInit exampleMesh dev0) = None"
    by (simp add: example_defs run_defs)
  then have h3: "deferredInit exampleMesh dev0 =
      (None, fst (snd (deferredInit exampleMesh dev0)), snd (snd (deferredInit exampleMesh dev0)))"
    by (metis prod.collapse)
  have n: "length (vertexBundles (struct exampleMesh)) = 1"
    "length (filter (\<lambda>prim. renderable prim \<and> indexed prim) (primitives (struct exampleMesh))) = 1"
    "length (filter indexed (primitives (struct exampleMesh))) = 2"
    "length (buffers dev0) = 0"
    by (simp_all add: example_defs renderable_def indexed_def)
  from deferredInit_buffer_counts [OF h1 h2 h3] obtain rm where
    rm: "renderingMesh (fst (snd (deferredInit exampleMesh dev0))) = Some rm"
    and lv: "length (vertexBuffers rm) = length (vertexBundles (struct exampleMesh))"
    and li: "length (indexBuffers rm) =
       length (filter (\<lambda>prim. renderable prim \<and> indexed prim) (primitives (struct exampleMesh)))"
    and all: "vertexBuffers rm @ indexBuffers rm =
       [length (buffers dev0) ..< length (buffers (snd (snd (deferredInit exampleMesh dev0))))]"
    and lb: "length (buffers (snd (snd (deferredInit exampleMesh dev0)))) =
       length (buffers dev0) + length (vertexBuffers rm) + length (indexBuffers rm)"
    by blast
  from lb lv li n have two: "length (buffers (snd (snd (deferredInit exampleMesh dev0)))) = 2"
    by simp
  from lv li n obtain v i where vi: "vertexBuffers rm = [v]" "indexBuffers rm = [i]"
    by (auto simp: length_Suc_conv)
  with all two n have "v = 0 \<and> i = 1" by (simp add: upt_rec)
  with h1 h2 r rm vi two n show ?thesis by simp
qed

subsection \<open>Ranges beyond the buffer\<close>

lemma createVertexBuffers_overrun:
  "\<not> list_all (\<lambda>vb. inBounds buf (data vb)) bs \<Longrightarrow>
   createVertexBuffers bs buf dev = (r, dev') \<Longrightarrow>
     (\<exists>e. r = Inl e) \<and>
     (reliable dev \<longrightarrow> r = Inl RangeError \<and>
        length (buffers dev') =
          length (buffers dev) + Suc (length (takeWhile (\<lambda>vb. inBounds buf (data vb)) bs)))"
proof (induction bs arbitrary: dev r dev')
  case Nil
  then show ?case by simp
next
  case (Cons vb bs)
  let ?info = "\<lparr>usage = {VERTEX, TRANSFER_DST}, memUsage = {HOST, DEVICE},
              size' = length' (data vb),
              stride = jsdiv (length' (data vb)) (verticesCount vb)\<rparr>"
  obtain r1 dev1 where cb: "createBuffer ?info dev = (r1, dev1)" by fastforce
  note c1 = createBuffer_result [OF cb]
  show ?case
  proof (cases r1)
    case (Inl e)
    with Cons.prems(2) cb have "r = Inl e" by simp
    moreover from c1 Inl have "\<not> reliable dev" by (auto simp: reliable_def)
    ultimately show ?thesis by simp
  next
    case (Inr b)
    with c1 have l1: "length (buffers dev1) = Suc (length (buffers dev))"
      and rf: "refuses dev1 = refuses dev" by auto
    show ?thesis
    proof (cases "inBounds buf (data vb)")
      case False
      then have "newTypedArray Uint8Array buf (offset (data vb)) (length' (data vb)) = Inl RangeError"
        by (simp add: newTypedArray_def inBounds_def)
      with Cons.prems(2) cb Inr have "r = Inl RangeError" "dev' = dev1" by simp_all
      with l1 False show ?thesis by simp
    next
      case True
      then obtain view where
        v: "newTypedArray Uint8Array buf (offset (data vb)) (length' (data vb)) = Inr view"
        by (auto simp: newTypedArray_def inBounds_def)
      obtain r2 dev2 where
        rec: "createVertexBuffers bs buf (GFXBuffer_update b view dev1) = (r2, dev2)" by fastforce
      from Cons.prems(1) True have bad: "\<not> list_all (\<lambda>vb. inBounds buf (data vb)) bs" by simp
      note ih = Cons.IH [OF bad rec]
      from ih obtain e where e: "r2 = Inl e" by blast
      with Cons.prems(2) cb Inr v rec have r: "r = Inl e" and d: "dev' = dev2" by simp_all
      have rel: "reliable (GFXBuffer_update b view dev1) = reliable dev"
        using rf by (simp add: reliable_def)
      from ih rel e r d l1 True show ?thesis by simp
    qed
  qed
qed

text \<open>
  C2 as stated fails. A bundle of 8 bytes over a buffer of 4 bytes: the RangeError of
  the view is raised after the vertex buffer of the bundle was allocated, and that
  buffer stays allocated. A bundle of 4 bytes with \<^verbatim>\<open>verticesCount\<close> zero: nothing is
  raised, the stride passed to the device is Infinity and the rendering mesh is
  constructed.
\<close>

theorem overrun_allocates_and_zero_vertices_pass:
  "fst (deferredInit overrunMesh dev0) = Some RangeError \<and>
   length (buffers (snd (snd (deferredInit overrunMesh dev0)))) = 1 \<and>
   live (snd (snd (deferredInit overrunMesh dev0))) = [0] \<and>
   fst (deferredInit zeroVerticesMesh dev0) = None \<and>
   map_option vertexBuffers (renderingMesh (fst (snd (deferredInit zeroVerticesMesh dev0)))) = Some [0] \<and>
   map stride (buffers (snd (snd (deferredInit zeroVerticesMesh dev0)))) = [Infinity]"
  by (simp add: example_defs run_defs live_def)

text \<open>
  C2, amended. When a vertex bundle's range ends beyond the buffer, deferred
  initialization of a mesh that has data and is not initialized ends with an error,
  constructs no rendering mesh and releases no buffer. When the device refuses no
  allocation the error is the RangeError of the first such bundle's view, raised after
  a vertex buffer was allocated for that bundle and for each bundle before it.
\<close>

theorem deferredInit_overrun:
  assumes "\<not> initialized this" and "mesh_data this = Some d"
    and "\<not> list_all (\<lambda>vb. inBounds (buffer d) (data vb)) (vertexBundles (struct this))"
    and "deferredInit this dev = (r, this', dev')"
  shows "(\<exists>e. r = Some e) \<and> renderingMesh this' = renderingMesh this \<and>
     released dev' = released dev \<and>
     (reliable dev \<longrightarrow> r = Some RangeError \<and>
        length (buffers dev') =
          length (buffers dev) +
          Suc (length (takeWhile (\<lambda>vb. inBounds (buffer d) (data vb)) (vertexBundles (struct this)))))"
  using assms(1,2,4)
proof (cases rule: deferredInit_cases)
  case (vertex e)
  from createVertexBuffers_overrun [OF assms(3) vertex(1)] createVertexBuffers_frame [OF vertex(1)]
    vertex(2,3)
  show ?thesis by simp
next
  case (primitive vbs dev1 e prims')
  from createVertexBuffers_overrun [OF assms(3) primitive(1)] show ?thesis by simp
next
  case (built vbs dev1 ibs sms prims')
  from createVertexBuffers_overrun [OF assms(3) built(1)] show ?thesis by simp
qed

text \<open>
  Two bundles over a buffer of 16 bytes, the second of 16 bytes at offset 8: a
  RangeError after two allocations.
\<close>

theorem deferredInit_overrun_witness:
  "\<not> initialized secondOverrunMesh \<and> mesh_data secondOverrunMesh = Some (zeroBytes 16) \<and>
   map (\<lambda>vb. inBounds (buffer (zeroBytes 16)) (data vb)) (vertexBundles (struct secondOverrunMesh))
     = [True, False] \<and>
   reliable dev0 \<and>
   fst (deferredInit secondOverrunMesh dev0) = Some RangeError \<and>
   renderingMesh (fst (snd (deferredInit secondOverrunMesh dev0))) = None \<and>
   released (snd (snd (deferredInit secondOverrunMesh dev0))) = [] \<and>
   length (buffers (snd (snd (deferredInit secondOverrunMesh dev0)))) = 2"
proof -
  have h1: "\<not> initialized secondOverrunMesh"
    and h2: "mesh_data secondOverrunMesh = Some (zeroBytes 16)"
    by (simp_all add: secondOverrunMesh_def meshOf_def)
  have bs: "map (\<lambda>vb. inBounds (buffer (zeroBytes 16)) (data vb)) (vertexBundles (struct secondOverrunMesh))
     = [True, False]"
    by (simp add: example_defs inBounds_def)
  have h3: "\<not> list_all (\<lambda>vb. inBounds (buffer (zeroBytes 16)) (data vb))
               (vertexBundles (struct secondOverrunMesh))"
    by (simp add: example_defs inBounds_def)
  have h4: "deferredInit secondOverrunMesh dev0 =
      (fst (deferredInit secondOverrunMesh dev0), fst (snd (deferredInit secondOverrunMesh dev0)),
       snd (snd (deferredInit secondOverrunMesh dev0)))"
    by simp
  have rel: "reliable dev0" by (simp add: reliable_def dev0_def)
  have tw: "length (takeWhile (\<lambda>vb. inBounds (buffer (zeroBytes 16)) (data vb))
              (vertexBundles (struct secondOverrunMesh))) = 1"
    by (simp add: example_defs inBounds_def)
  have i: "renderingMesh secondOverrunMesh = None" "released dev0 = []" "length (buffers dev0) = 0"
    by (simp_all add: example_defs)
  from deferredInit_overrun [OF h1 h2 h3 h4] rel tw i h1 h2 bs show ?thesis by simp
qed

subsection \<open>Refused allocations\<close>

text \<open>
  C4 as stated fails: the method has no handler, so the buffers allocated before the
  refused allocation are not released. The device refuses the second allocation; the
  first buffer is still allocated when the error leaves the method.
\<close>

theorem failed_allocation_leaves_buffer_live:
  "fst (deferredInit twoBundleMesh (devRefusing 1)) = Some DeviceError \<and>
   live (snd (snd (deferredInit twoBundleMesh (devRefusing 1)))) = [0] \<and>
   released (snd (snd (deferredInit twoBundleMesh (devRefusing 1)))) = []"
  by (simp add: example_defs run_defs live_def)

text \<open>
  C4, amended. When the device refuses an allocation during deferred initialization,
  the method ends with the device's error, which the accessor \<^verbatim>\<open>renderingMesh\<close>
  passes on; no rendering mesh is constructed; no buffer is released, so the buffers
  allocated before the refusal stay allocated.
\<close>

theorem deferredInit_allocation_failure:
  assumes "deferredInit this dev = (r, this', dev')" and "allocationFailed dev dev'"
  shows "r = Some DeviceError \<and> fst (get_renderingMesh this dev) = Inl DeviceError \<and>
     renderingMesh this' = renderingMesh this \<and>
     released dev' = released dev \<and> (\<exists>extra. buffers dev' = buffers dev @ extra)"
proof (cases "initialized this \<or> mesh_data this = None")
  case True
  with assms(1) have "dev' = dev"
    by (auto simp: deferredInit_def Let_def split: if_splits)
  with assms(2) show ?thesis by simp
next
  case False
  then obtain d where i: "\<not> initialized this" and d: "mesh_data this = Some d" by auto
  from i d assms(1) have "r = Some DeviceError \<and> renderingMesh this' = renderingMesh this \<and>
     released dev' = released dev \<and> (\<exists>extra. buffers dev' = buffers dev @ extra)"
  proof (cases rule: deferredInit_cases)
    case (vertex e)
    from createVertexBuffers_allocationFailed [OF vertex(1)] assms(2)
      createVertexBuffers_frame [OF vertex(1)] vertex(2,3)
    show ?thesis by simp
  next
    case (primitive vbs dev1 e prims')
    note f1 = createVertexBuffers_frame [OF primitive(1)]
    note f2 = initPrimitives_frame [OF primitive(2)]
    note a1 = createVertexBuffers_allocationFailed [OF primitive(1)]
    note a2 = initPrimitives_allocationFailed [OF primitive(2)]
    from a1 a2 f1 have "allocationFailed dev dev' \<longleftrightarrow> allocationFailed dev dev1 \<or> allocationFailed dev1 dev'"
      by (intro allocationFailed_trans) auto
    with a1 a2 assms(2) have "e = DeviceError" by simp
    moreover from f1 f2 have "released dev' = released dev \<and> (\<exists>extra. buffers dev' = buffers dev @ extra)"
      by auto
    ultimately show ?thesis using primitive(3,4) by simp
  next
    case (built vbs dev1 ibs sms prims')
    note f1 = createVertexBuffers_frame [OF built(1)]
    note a1 = createVertexBuffers_allocationFailed [OF built(1)]
    note a2 = initPrimitives_allocationFailed [OF built(2)]
    from a1 a2 f1 have "allocationFailed dev dev' \<longleftrightarrow> allocationFailed dev dev1 \<or> allocationFailed dev1 dev'"
      by (intro allocationFailed_trans) auto
    with a1 a2 assms(2) show ?thesis by simp
  qed
  with assms(1) show ?thesis by (simp add: get_renderingMesh_def)
qed

text \<open>
  Two bundles on a device that refuses its second allocation.
\<close>

theorem deferredInit_allocation_failure_witness:
  "allocationFailed (devRefusing 1) (snd (snd (deferredInit twoBundleMesh (devRefusing 1)))) \<and>
   fst (deferredInit twoBundleMesh (devRefusing 1)) = Some DeviceError \<and>
   fst (get_renderingMesh twoBundleMesh (devRefusing 1)) = Inl DeviceError \<and>
   renderingMesh (fst (snd (deferredInit twoBundleMesh (devRefusing 1)))) = None \<and>
   released (snd (snd (deferredInit twoBundleMesh (devRefusing 1)))) = [] \<and>
   length (buffers (snd (snd (deferredInit twoBundleMesh (devRefusing 1))))) = 1"
proof -
  have h1: "deferredInit twoBundleMesh (devRefusing 1) =
      (fst (deferredInit twoBundleMesh (devRefusing 1)),
       fst (snd (deferredInit twoBundleMesh (devRefusing 1))),
       snd (snd (deferredInit twoBundleMesh (devRefusing 1))))"
    by simp
  have a: "attempts (snd (snd (deferredInit twoBundleMesh (devRefusing 1)))) = 2"
    by (simp add: example_defs run_defs)
  have h2: "allocationFailed (devRefusing 1) (snd (snd (deferredInit twoBundleMesh (devRefusing 1))))"
    unfolding allocationFailed_iff a by (simp add: devRefusing_def)
  have l: "length (buffers (snd (snd (deferredInit twoBundleMesh (devRefusing 1))))) = 1"
    by (simp add: example_defs run_defs)
  have i: "renderingMesh twoBundleMesh = None" "released (devRefusing 1) = []"
    by (simp_all add: example_defs)
  from deferredInit_allocation_failure [OF h1 h2] h2 l i show ?thesis by simp
qed

subsection \<open>Assigning a new struct and buffer\<close>

text \<open>
  \<^verbatim>\<open>assign\<close> resets the flag when the mesh has a rendering mesh.
\<close>

lemma assign_resets_after_materialization:
  "renderingMesh this = Some rm \<Longrightarrow> \<not> initialized (fst (assign s d this dev))"
  by (simp add: assign_def tryDestroyRenderingMesh_def split: prod.splits)

text \<open>
  C3, on the code. A mesh made by \<^verbatim>\<open>new Mesh()\<close> has no data; reading its
  \<^verbatim>\<open>renderingMesh\<close> returns \<^verbatim>\<open>null\<close> and sets the flag. \<^verbatim>\<open>assign\<close> then stores
  the new struct and data and leaves the flag set, because
  \<^verbatim>\<open>_tryDestroyRenderingMesh\<close> resets it only when there is a rendering mesh. The next
  read of \<^verbatim>\<open>renderingMesh\<close> returns \<^verbatim>\<open>null\<close> again and allocates nothing, where a
  mesh not yet initialized with the same struct and data gets two vertex buffers.
\<close>

theorem assign_after_empty_access_skips_init:
  "fst (get_renderingMesh new_Mesh dev0) = Inr None \<and>
   initialized reassignedMesh \<and>
   struct reassignedMesh = struct twoBundleMesh \<and>
   mesh_data reassignedMesh = Some (zeroBytes 16) \<and>
   get_renderingMesh reassignedMesh dev0 = (Inr None, reassignedMesh, dev0) \<and>
   map_option vertexBuffers (renderingMesh (fst (snd (deferredInit twoBundleMesh dev0)))) = Some [0, 1]"
  by (simp add: example_defs run_defs get_renderingMesh_def new_Mesh_def assign_def
      tryDestroyRenderingMesh_def)

end
